theory Spec2Isabelle
  imports Complex_Main "HOL-Library.Log_Nat"
begin

section \<open>Data model\<close>

text \<open>
  The batch page (\<open>EnhancedBatches\<close>) and the facility page keep their data in React
  state and in a hosted relational store. Both are made explicit here: the component
  state is a record that every handler takes and returns, the store is a record of
  tables (lists of rows), and every call to the store carries the reply the store gave
  (success or error), because a failing call is outside the program's control.

  Numbers: the source computes with JavaScript numbers, which are IEEE 754 double
  precision values. A finite one is a rational, and every addition, subtraction,
  multiplication and division of the source is the exact operation followed by rounding
  to the nearest double, ties to even (\<open>fl\<close> below); a decimal literal of the source
  is the rounding of its value. Counts of lights, milliseconds and day numbers are
  integers: below \<open>2^53\<close> their sums and differences are exact in a double, and they
  are kept as \<open>int\<close>. Overflow past the largest double, \<open>NaN\<close>, the infinities and the
  sign of zero are outside the model, except that the result of a division is a
  \<open>rat option\<close> whose \<open>None\<close> stands for the non-finite value JavaScript yields on a
  zero denominator.

  Errors: the store client reports a failure in the \<open>error\<close> field of its reply, and
  that is the failure every handler below branches on. The \<open>catch\<close> blocks of the
  handlers, reached only when a call throws, are modelled where the handler itself can
  throw (reading the first strain of an empty list) and not otherwise.

  Dates: a date column or a date-only form field is the day number of that calendar day
  (days since the epoch, UTC); the clock \<open>today\<close> is in milliseconds since the epoch.
  Fields of the source's interfaces that no handler below reads (area, timestamps,
  flip date, strain code) are left out.
\<close>

type_synonym ident = string

datatype batch_status = Planned | Active | Harvested | Archived

section \<open>JavaScript numbers\<close>

text \<open>
  For a positive rational \<open>x\<close>, \<open>flog2 x\<close> is the exponent \<open>e\<close> with
  \<open>2^e \<le> x < 2^(e+1)\<close>, found from the bit lengths of numerator and denominator.
\<close>

definition flog2 :: "rat \<Rightarrow> int" where
  "flog2 x =
     (let (a, b) = quotient_of x;
          k = bitlen a - bitlen b
      in if 2 powi k \<le> x then k else k - 1)"

text \<open>Rounding to the nearest integer, a tie going to the even one.\<close>

definition round_even :: "rat \<Rightarrow> int" where
  "round_even y =
     (let f = \<lfloor>y\<rfloor>;
          r = y - of_int f
      in if r < 1 / 2 then f
         else if 1 / 2 < r then f + 1
         else if even f then f else f + 1)"

text \<open>
  A double has 53 significant bits, so around a positive \<open>x\<close> the doubles are the
  multiples of \<open>2^(flog2 x - 52)\<close>, and of \<open>2^-1074\<close> in the subnormal range.
\<close>

definition fl_pos :: "rat \<Rightarrow> rat" where
  "fl_pos x =
     (let q = max (flog2 x - 52) (- 1074)
      in of_int (round_even (x / 2 powi q)) * 2 powi q)"

definition fl :: "rat \<Rightarrow> rat" where
  "fl x = (if x = 0 then 0 else if x < 0 then - fl_pos (- x) else fl_pos x)"

definition js_add :: "rat \<Rightarrow> rat \<Rightarrow> rat" where
  "js_add a b = fl (a + b)"

definition js_sub :: "rat \<Rightarrow> rat \<Rightarrow> rat" where
  "js_sub a b = fl (a - b)"

definition js_mul :: "rat \<Rightarrow> rat \<Rightarrow> rat" where
  "js_mul a b = fl (a * b)"

text \<open>
  Division of two JavaScript numbers: on a zero denominator the result is not a finite
  number, which is \<open>None\<close> here.
\<close>

definition js_div :: "rat \<Rightarrow> rat \<Rightarrow> rat option" where
  "js_div a b = (if b = 0 then None else Some (fl (a / b)))"

record room =
  r_id :: ident
  r_name :: string
  r_lights :: "int option"

record strain =
  st_id :: ident
  st_name :: string

record batch_strain =
  bs_strain_id :: ident
  bs_strain_name :: string
  bs_lights_assigned :: int
  bs_percentage :: rat

record batch_strain_assignment =
  bsa_batch_id :: ident
  bsa_strain_id :: ident
  bsa_lights_assigned :: int
  bsa_percentage :: rat

record batch =
  b_id :: ident
  b_room_id :: "ident option"
  b_strain_id :: "ident option"
  b_batch_code :: "string option"
  b_start_date :: int
  b_expected_harvest :: "int option"
  b_status :: batch_status

text \<open>An assignment as the batch query returns it, with the joined strain name.\<close>

record joined_assignment =
  ja_strain_id :: ident
  ja_lights_assigned :: int
  ja_percentage :: rat
  ja_strains_name :: "string option"

text \<open>A batch as \<open>loadBatches\<close> leaves it in the component state.\<close>

record loaded_batch = batch +
  room_name :: "string option"
  strain_name :: string
  lights_assigned :: "int option"
  strain_percentage :: rat
  batch_strains :: "joined_assignment list option"

record harvest_data =
  hd_strain_id :: ident
  hd_strain_name :: string
  bigs_lbs :: rat
  smalls_lbs :: rat
  micros_lbs :: rat
  bigs_price_per_lb :: rat
  smalls_price_per_lb :: rat
  micros_price_per_lb :: rat

record harvest_summary =
  total_harvest_lbs :: rat
  yield_per_light :: "rat option"
  total_revenue :: rat
  revenue_per_light :: "rat option"
  cost_to_grow :: rat
  profit_loss :: rat
  cost_per_lb :: "rat option"
  net_income_per_lb :: "rat option"
  net_income_sales_ratio :: "rat option"
  harvest_data :: "harvest_data list"

record cost_entry =
  ce_amount :: rat
  ce_batch_id :: "ident option"
  ce_room_id :: "ident option"
  ce_date :: int

record harvest_summary_row =
  hs_id :: ident
  hs_batch_id :: ident
  hs_total_harvest_lbs :: rat
  hs_yield_per_light :: "rat option"
  hs_total_lights :: int
  hs_harvest_date :: int

record harvest_detail_row =
  hdr_harvest_summary_id :: ident
  hdr_strain_id :: ident
  hdr_strain_name :: string
  hdr_bigs_lbs :: rat
  hdr_smalls_lbs :: rat
  hdr_micros_lbs :: rat

record database =
  rooms_tbl :: "room list"
  strains_tbl :: "strain list"
  batches_tbl :: "batch list"
  batch_strains_tbl :: "batch_strain_assignment list"
  cost_entries_tbl :: "cost_entry list"
  harvest_summaries_tbl :: "harvest_summary_row list"
  harvest_details_tbl :: "harvest_detail_row list"

text \<open>
  The form for a new batch. An empty text field is the empty string, an empty date
  field is \<open>None\<close>.
\<close>

record new_batch =
  nb_room_id :: string
  nb_batch_code :: string
  nb_start_date :: "int option"
  nb_expected_harvest :: "int option"
  nb_status :: batch_status

text \<open>
  The component state of the batch page. \<open>alerts\<close> collects the messages the
  handlers show with \<open>alert\<close>, oldest first.
\<close>

record page_state =
  batches :: "loaded_batch list"
  rooms :: "room list"
  strains :: "strain list"
  newBatch :: new_batch
  batchStrains :: "batch_strain list"
  selectedStrain :: string
  lightsForStrain :: string
  percentageForStrain :: string
  showHarvestModal :: bool
  selectedBatchForHarvest :: "loaded_batch option"
  harvestData :: "harvest_data list"
  harvestSummary :: "harvest_summary option"
  harvestDataSaved :: bool
  viewingExistingHarvest :: bool
  alerts :: "string list"

definition alert :: "string \<Rightarrow> page_state \<Rightarrow> page_state" where
  "alert msg s = s\<lparr>alerts := alerts s @ [msg]\<rparr>"

section \<open>Cost to grow\<close>

definition ms_per_day :: int where
  "ms_per_day = 1000 * 60 * 60 * 24"

text \<open>
  The query of \<open>calculateCostToGrow\<close> on \<open>cost_entries\<close>:
  \<open>.or(batch_id.eq.B, room_id.eq.R).gte("date", from).lte("date", to)\<close>.
  \<open>ok\<close> is whether the store answered without error.
\<close>

definition select_cost_entries ::
  "bool \<Rightarrow> database \<Rightarrow> ident \<Rightarrow> ident \<Rightarrow> int \<Rightarrow> int \<Rightarrow> cost_entry list option" where
  "select_cost_entries ok db batchId roomId fromDate toDate =
     (if ok
      then Some (filter (\<lambda>e. (ce_batch_id e = Some batchId \<or> ce_room_id e = Some roomId)
                              \<and> fromDate \<le> ce_date e \<and> ce_date e \<le> toDate)
                        (cost_entries_tbl db))
      else None)"

definition electricityCostPerLightPerDay :: rat where
  "electricityCostPerLightPerDay = js_mul (js_mul (fl (15 / 100)) 1) 18"

definition daysActive :: "int \<Rightarrow> int \<Rightarrow> int" where
  "daysActive today startDate =
     \<lceil>fl (of_int (today - startDate * ms_per_day) / of_int ms_per_day)\<rceil>"

definition calculateCostToGrow ::
  "bool \<Rightarrow> database \<Rightarrow> int \<Rightarrow> page_state \<Rightarrow> ident \<Rightarrow> ident \<Rightarrow> int \<Rightarrow> rat" where
  "calculateCostToGrow ok db today s batchId roomId startDate =
     (let totalLights =
            (case find (\<lambda>r. r_id r = roomId) (rooms s) of
               None \<Rightarrow> 0
             | Some r \<Rightarrow> (case r_lights r of None \<Rightarrow> 0 | Some n \<Rightarrow> n))
      in case select_cost_entries ok db batchId roomId startDate (today div ms_per_day) of
           None \<Rightarrow> 0
         | Some costEntries \<Rightarrow>
             (let totalCosts =
                    foldl (\<lambda>sum entry. js_add sum (ce_amount entry)) 0 costEntries;
                  totalElectricityCost =
                    js_mul (js_mul (of_int totalLights) electricityCostPerLightPerDay)
                           (of_int (daysActive today startDate))
              in js_add totalCosts totalElectricityCost))"

section \<open>Harvest summary\<close>

text \<open>\<open>selectedBatchForHarvest?.lights_assigned || 1\<close>: unset and 0 both give 1.\<close>

definition lights_or_one :: "loaded_batch option \<Rightarrow> int" where
  "lights_or_one sel =
     (case sel of
        None \<Rightarrow> 1
      | Some b \<Rightarrow> (case lights_assigned b of
                     None \<Rightarrow> 1
                   | Some n \<Rightarrow> if n = 0 then 1 else n))"

definition room_id_or_empty :: "loaded_batch \<Rightarrow> ident" where
  "room_id_or_empty b = (case b_room_id b of None \<Rightarrow> [] | Some r \<Rightarrow> r)"

definition calculateHarvestSummary ::
  "bool \<Rightarrow> database \<Rightarrow> int \<Rightarrow> page_state \<Rightarrow> harvest_summary \<times> page_state" where
  "calculateHarvestSummary ok db today s =
     (let totalHarvest =
            foldl (\<lambda>total strain.
                     js_add (js_add (js_add total (bigs_lbs strain)) (smalls_lbs strain))
                            (micros_lbs strain))
                  0 (harvestData s);
          totalRevenue =
            foldl (\<lambda>total strain.
                     js_add (js_add (js_add total
                               (js_mul (bigs_lbs strain) (bigs_price_per_lb strain)))
                               (js_mul (smalls_lbs strain) (smalls_price_per_lb strain)))
                            (js_mul (micros_lbs strain) (micros_price_per_lb strain)))
                  0 (harvestData s);
          totalLights = lights_or_one (selectedBatchForHarvest s);
          yieldPerLight = js_div totalHarvest (of_int totalLights);
          revenuePerLight = js_div totalRevenue (of_int totalLights);
          costToGrow =
            (case selectedBatchForHarvest s of
               Some b \<Rightarrow> calculateCostToGrow ok db today s (b_id b) (room_id_or_empty b)
                           (b_start_date b)
             | None \<Rightarrow> 0);
          profitLoss = js_sub totalRevenue costToGrow;
          costPerLb = (if totalHarvest > 0 then js_div costToGrow totalHarvest else Some 0);
          netIncomePerLb = (if totalHarvest > 0 then js_div profitLoss totalHarvest else Some 0);
          netIncomeSalesRatio =
            (if totalRevenue > 0
             then map_option (\<lambda>q. js_mul q 100) (js_div profitLoss totalRevenue)
             else Some 0);
          summary = \<lparr> total_harvest_lbs = totalHarvest,
                      yield_per_light = yieldPerLight,
                      total_revenue = totalRevenue,
                      revenue_per_light = revenuePerLight,
                      cost_to_grow = costToGrow,
                      profit_loss = profitLoss,
                      cost_per_lb = costPerLb,
                      net_income_per_lb = netIncomePerLb,
                      net_income_sales_ratio = netIncomeSalesRatio,
                      harvest_data = harvestData s \<rparr>
      in (summary, s\<lparr>harvestSummary := Some summary\<rparr>))"

section \<open>Batch code\<close>

definition is_digit :: "char \<Rightarrow> bool" where
  "is_digit c = (c \<in> set ''0123456789'')"

text \<open>
  \<open>roomName.match(/(\d+)/)\<close>: the leftmost, longest run of decimal digits, or no
  match.
\<close>

definition match_digits :: "string \<Rightarrow> string option" where
  "match_digits roomName =
     (case dropWhile (\<lambda>c. \<not> is_digit c) roomName of
        [] \<Rightarrow> None
      | c # cs \<Rightarrow> Some (takeWhile is_digit (c # cs)))"

definition digit_char :: "nat \<Rightarrow> char" where
  "digit_char d = ''0123456789'' ! (d mod 10)"

text \<open>\<open>String(n)\<close> and template interpolation of a non-negative integer.\<close>

fun decimal :: "nat \<Rightarrow> string" where
  "decimal n = (if 10 \<le> n then decimal (n div 10) @ [digit_char (n mod 10)] else [digit_char n])"

declare decimal.simps [simp del]

text \<open>The same for an integer that may be negative.\<close>

definition number_text :: "int \<Rightarrow> string" where
  "number_text i = (if 0 \<le> i then decimal (nat i) else CHR ''-'' # decimal (nat (- i)))"

text \<open>\<open>s.padStart(n, c)\<close> for a one-character pad string.\<close>

definition padStart :: "nat \<Rightarrow> char \<Rightarrow> string \<Rightarrow> string" where
  "padStart n c s = replicate (n - length s) c @ s"

text \<open>
  \<open>.like("batch_code", prefix + "%")\<close>. The prefix built by \<open>generateBatchCode\<close>
  consists of \<open>R\<close>, digits and \<open>-\<close>, so it holds no wildcard of its own and the
  pattern matches exactly the codes that start with it; a null code matches nothing.
\<close>

definition like_prefix :: "string \<Rightarrow> string option \<Rightarrow> bool" where
  "like_prefix prefix code =
     (case code of None \<Rightarrow> False | Some c \<Rightarrow> take (length prefix) c = prefix)"

definition select_batch_codes ::
  "bool \<Rightarrow> database \<Rightarrow> ident \<Rightarrow> string \<Rightarrow> string option list option" where
  "select_batch_codes ok db roomId prefix =
     (if ok
      then Some (map b_batch_code
                   (filter (\<lambda>b. b_room_id b = Some roomId \<and> like_prefix prefix (b_batch_code b))
                           (batches_tbl db)))
      else None)"

text \<open>\<open>year\<close> is \<open>new Date().getFullYear()\<close>, read from the clock by the caller.\<close>

definition generateBatchCode ::
  "bool \<Rightarrow> database \<Rightarrow> nat \<Rightarrow> string \<Rightarrow> ident \<Rightarrow> string" where
  "generateBatchCode ok db year roomName roomId =
     (let roomNumber = (case match_digits roomName of Some ds \<Rightarrow> ds | None \<Rightarrow> ''1'');
          roomCode = ''R'' @ roomNumber
      in case select_batch_codes ok db roomId (roomCode @ ''-'' @ decimal year @ ''-'') of
           None \<Rightarrow> roomCode @ ''-'' @ decimal year @ ''-01''
         | Some existingBatches \<Rightarrow>
             (let batchCount = length existingBatches + 1;
                  batchNumber = padStart 2 (CHR ''0'') (decimal batchCount)
              in roomCode @ ''-'' @ decimal year @ ''-'' @ batchNumber))"

section \<open>The strain list of the new-batch form\<close>

text \<open>
  \<open>parseInt\<close> and \<open>parseFloat\<close> are functions of the JavaScript library; the handler
  takes them as parameters. A text they cannot read as a number (their result \<open>NaN\<close>)
  is outside the model.
\<close>

definition handleAddStrainToBatch ::
  "(string \<Rightarrow> int) \<Rightarrow> (string \<Rightarrow> rat) \<Rightarrow> page_state \<Rightarrow> page_state" where
  "handleAddStrainToBatch parseInt parseFloat s =
     (if selectedStrain s = [] \<or> lightsForStrain s = [] \<or> percentageForStrain s = []
      then alert ''Please fill in all strain details'' s
      else if nb_room_id (newBatch s) \<noteq> [] \<and>
              (case find (\<lambda>r. r_id r = nb_room_id (newBatch s)) (rooms s) of
                 None \<Rightarrow> False
               | Some room \<Rightarrow>
                   (case r_lights room of
                      None \<Rightarrow> False
                    | Some lights \<Rightarrow>
                        lights \<noteq> 0 \<and>
                        (let usedLights =
                               foldl (\<lambda>sum strain. sum + bs_lights_assigned strain) 0
                                     (batchStrains s);
                             remainingLights = lights - usedLights
                         in remainingLights \<le> 0)))
      then alert ''No lights available. All lights have been assigned to strains.'' s
      else case find (\<lambda>st. st_id st = selectedStrain s) (strains s) of
             None \<Rightarrow> s
           | Some strain \<Rightarrow>
               if list_ex (\<lambda>x. bs_strain_id x = selectedStrain s) (batchStrains s)
               then alert ''This strain is already added to the batch'' s
               else (let newStrain = \<lparr> bs_strain_id = selectedStrain s,
                                        bs_strain_name = st_name strain,
                                        bs_lights_assigned = parseInt (lightsForStrain s),
                                        bs_percentage = parseFloat (percentageForStrain s) \<rparr>
                     in s\<lparr> batchStrains := batchStrains s @ [newStrain],
                           selectedStrain := [],
                           lightsForStrain := [],
                           percentageForStrain := [] \<rparr>))"

definition removeStrainFromBatch :: "nat \<Rightarrow> page_state \<Rightarrow> page_state" where
  "removeStrainFromBatch index s =
     s\<lparr> batchStrains :=
          map snd (filter (\<lambda>(i, _). i \<noteq> index) (enumerate 0 (batchStrains s))) \<rparr>"

definition lights_text :: "int option \<Rightarrow> string" where
  "lights_text l = (case l of None \<Rightarrow> ''null'' | Some n \<Rightarrow> number_text n)"

definition validateBatchStrains :: "page_state \<Rightarrow> bool \<times> page_state" where
  "validateBatchStrains s =
     (if batchStrains s = []
      then (False, alert ''Please add at least one strain to the batch'' s)
      else case find (\<lambda>r. r_id r = nb_room_id (newBatch s)) (rooms s) of
             None \<Rightarrow> (True, s)
           | Some room \<Rightarrow>
               (let totalLights =
                      foldl (\<lambda>sum strain. sum + bs_lights_assigned strain) 0 (batchStrains s)
                in if totalLights > (case r_lights room of None \<Rightarrow> 0 | Some n \<Rightarrow> n)
                   then (False,
                         alert (''Total lights assigned ('' @ number_text totalLights
                                @ '') cannot exceed room capacity (''
                                @ lights_text (r_lights room) @ '')'') s)
                   else (let totalPercentage =
                               foldl (\<lambda>sum strain. js_add sum (bs_percentage strain)) 0
                                     (batchStrains s)
                         in if totalPercentage > fl (1001 / 10)
                            then (False, alert ''Total percentage cannot exceed 100%'' s)
                            else (True, s))))"

text \<open>
  The events of the strain section of the form. The change handlers of the three inputs
  write only the three text fields; \<open>EditFields\<close> stands for any of them and may set
  the fields to any strings.
\<close>

datatype strain_event =
    EditFields string string string
  | AddStrain
  | RemoveStrain nat

fun strain_step :: "(string \<Rightarrow> int) \<Rightarrow> (string \<Rightarrow> rat) \<Rightarrow> page_state \<Rightarrow> strain_event \<Rightarrow> page_state" where
  "strain_step parseInt parseFloat s (EditFields sel lights pct) =
     s\<lparr> selectedStrain := sel, lightsForStrain := lights, percentageForStrain := pct \<rparr>"
| "strain_step parseInt parseFloat s AddStrain = handleAddStrainToBatch parseInt parseFloat s"
| "strain_step parseInt parseFloat s (RemoveStrain index) = removeStrainFromBatch index s"

definition strain_run ::
  "(string \<Rightarrow> int) \<Rightarrow> (string \<Rightarrow> rat) \<Rightarrow> strain_event list \<Rightarrow> page_state \<Rightarrow> page_state" where
  "strain_run parseInt parseFloat events s = foldl (strain_step parseInt parseFloat) s events"

section \<open>Loading batches\<close>

text \<open>
  The reply of the store to \<open>loadBatches\<close>: the query with the nested
  \<open>batch_strains\<close> succeeded; or it failed and the fallback query without them
  succeeded; or both failed. The \<open>order\<close> clauses are not modelled: rows come in table
  order.
\<close>

datatype load_reply = LoadJoined | LoadBasic | LoadFailed

definition joined_room :: "database \<Rightarrow> batch \<Rightarrow> room option" where
  "joined_room db b =
     (case b_room_id b of
        None \<Rightarrow> None
      | Some rid \<Rightarrow> find (\<lambda>r. r_id r = rid) (rooms_tbl db))"

definition joined_strain_name :: "database \<Rightarrow> ident option \<Rightarrow> string option" where
  "joined_strain_name db sid =
     (case sid of
        None \<Rightarrow> None
      | Some i \<Rightarrow> map_option st_name (find (\<lambda>st. st_id st = i) (strains_tbl db)))"

definition joined_batch_strains :: "database \<Rightarrow> batch \<Rightarrow> joined_assignment list" where
  "joined_batch_strains db b =
     map (\<lambda>a. \<lparr> ja_strain_id = bsa_strain_id a,
                ja_lights_assigned = bsa_lights_assigned a,
                ja_percentage = bsa_percentage a,
                ja_strains_name = joined_strain_name db (Some (bsa_strain_id a)) \<rparr>)
         (filter (\<lambda>a. bsa_batch_id a = b_id b) (batch_strains_tbl db))"

text \<open>\<open>names.join(", ")\<close>\<close>

fun join_names :: "string list \<Rightarrow> string" where
  "join_names [] = []"
| "join_names [n] = n"
| "join_names (n # m # ns) = n @ '', '' @ join_names (m # ns)"

definition process_batch :: "database \<Rightarrow> bool \<Rightarrow> batch \<Rightarrow> loaded_batch" where
  "process_batch db joined b =
     (let room = joined_room db b;
          assignments = (if joined then joined_batch_strains db b else []);
          withStrains = (assignments \<noteq> []);
          totalLights =
            (if withStrains
             then foldl (\<lambda>total a. total + ja_lights_assigned a) 0 assignments
             else (case room of
                     None \<Rightarrow> 0
                   | Some r \<Rightarrow> (case r_lights r of None \<Rightarrow> 0 | Some n \<Rightarrow> n)));
          totalPercentage =
            (if withStrains
             then foldl (\<lambda>total a. js_add total (ja_percentage a)) 0 assignments
             else 100);
          strainNames =
            (if withStrains
             then concat (map (\<lambda>a. case ja_strains_name a of
                                       None \<Rightarrow> []
                                     | Some n \<Rightarrow> if n = [] then [] else [n])
                              assignments)
             else [case joined_strain_name db (b_strain_id b) of None \<Rightarrow> [] | Some n \<Rightarrow> n])
      in \<lparr> b_id = b_id b,
           b_room_id = b_room_id b,
           b_strain_id = b_strain_id b,
           b_batch_code = b_batch_code b,
           b_start_date = b_start_date b,
           b_expected_harvest = b_expected_harvest b,
           b_status = b_status b,
           room_name = map_option r_name room,
           strain_name = join_names strainNames,
           lights_assigned = Some totalLights,
           strain_percentage = totalPercentage,
           batch_strains = (if joined then Some assignments else None) \<rparr>)"

definition loadBatches :: "load_reply \<Rightarrow> database \<Rightarrow> page_state \<Rightarrow> page_state" where
  "loadBatches reply db s =
     (case reply of
        LoadJoined \<Rightarrow> s\<lparr>batches := map (process_batch db True) (batches_tbl db)\<rparr>
      | LoadBasic \<Rightarrow> s\<lparr>batches := map (process_batch db False) (batches_tbl db)\<rparr>
      | LoadFailed \<Rightarrow> s)"

section \<open>Creating a batch\<close>

text \<open>
  The replies of the store during \<open>handleAddBatch\<close>: whether the lookup of existing
  codes succeeded, the identifier the store gave the inserted batch (\<open>None\<close> on error),
  whether the insert of the assignments succeeded, and the reply to the reload.
\<close>

record add_replies =
  ar_codes_ok :: bool
  ar_batch_insert :: "ident option"
  ar_assignments_ok :: bool
  ar_reload :: load_reply

definition empty_new_batch :: new_batch where
  "empty_new_batch =
     \<lparr> nb_room_id = [], nb_batch_code = [], nb_start_date = None,
       nb_expected_harvest = None, nb_status = Planned \<rparr>"

definition strainAssignments :: "ident \<Rightarrow> batch_strain list \<Rightarrow> batch_strain_assignment list" where
  "strainAssignments batchId strainList =
     map (\<lambda>strain. \<lparr> bsa_batch_id = batchId,
                     bsa_strain_id = bs_strain_id strain,
                     bsa_lights_assigned = bs_lights_assigned strain,
                     bsa_percentage = bs_percentage strain \<rparr>)
         strainList"

definition handleAddBatch ::
  "add_replies \<Rightarrow> nat \<Rightarrow> database \<Rightarrow> page_state \<Rightarrow> database \<times> page_state" where
  "handleAddBatch replies year db s =
     (case nb_start_date (newBatch s) of
        None \<Rightarrow> (db, alert ''Please fill in required fields'' s)
      | Some startDate \<Rightarrow>
          if nb_room_id (newBatch s) = []
          then (db, alert ''Please fill in required fields'' s)
          else (case validateBatchStrains s of
                  (False, s1) \<Rightarrow> (db, s1)
                | (True, s1) \<Rightarrow>
                    (let room = find (\<lambda>r. r_id r = nb_room_id (newBatch s1)) (rooms s1);
                         batchCode =
                           (if nb_batch_code (newBatch s1) \<noteq> []
                            then nb_batch_code (newBatch s1)
                            else (case room of
                                    Some r \<Rightarrow> generateBatchCode (ar_codes_ok replies) db year
                                                (r_name r) (r_id r)
                                  | None \<Rightarrow> []))
                     in case batchStrains s1 of
                          [] \<Rightarrow> (db, alert ''Error adding batch. Please try again.'' s1)
                        | first # _ \<Rightarrow>
                            (case ar_batch_insert replies of
                               None \<Rightarrow> (db, alert ''Error adding batch. Please try again.'' s1)
                             | Some newId \<Rightarrow>
                                 (let db1 = db\<lparr> batches_tbl := batches_tbl db @
                                              [\<lparr> b_id = newId,
                                                 b_room_id = Some (nb_room_id (newBatch s1)),
                                                 b_strain_id = Some (bs_strain_id first),
                                                 b_batch_code = Some batchCode,
                                                 b_start_date = startDate,
                                                 b_expected_harvest = nb_expected_harvest (newBatch s1),
                                                 b_status = nb_status (newBatch s1) \<rparr>] \<rparr>;
                                      db2 = (if ar_assignments_ok replies
                                             then db1\<lparr> batch_strains_tbl := batch_strains_tbl db1 @
                                                        strainAssignments newId (batchStrains s1) \<rparr>
                                             else db1);
                                      s2 = loadBatches (ar_reload replies) db2 s1
                                  in (db2, s2\<lparr> newBatch := empty_new_batch,
                                               batchStrains := [] \<rparr>))))))"

section \<open>Status changes and harvest recording\<close>

definition initializeHarvestData :: "loaded_batch \<Rightarrow> page_state \<Rightarrow> page_state" where
  "initializeHarvestData batch s =
     (let zero = (\<lambda>sid name.
                    \<lparr> hd_strain_id = sid, hd_strain_name = name,
                      bigs_lbs = 0, smalls_lbs = 0, micros_lbs = 0,
                      bigs_price_per_lb = 0, smalls_price_per_lb = 0,
                      micros_price_per_lb = 0 \<rparr>);
          initialData =
            (case batch_strains batch of
               Some (a # as) \<Rightarrow>
                 map (\<lambda>assignment.
                        zero (ja_strain_id assignment)
                             (case ja_strains_name assignment of
                                None \<Rightarrow> ''Unknown Strain''
                              | Some n \<Rightarrow> if n = [] then ''Unknown Strain'' else n))
                     (a # as)
             | _ \<Rightarrow>
                 if strain_name batch \<noteq> []
                 then [zero (case b_strain_id batch of None \<Rightarrow> [] | Some i \<Rightarrow> i)
                            (strain_name batch)]
                 else [])
      in s\<lparr> harvestData := initialData,
            harvestSummary := None,
            harvestDataSaved := False,
            viewingExistingHarvest := False \<rparr>)"

text \<open>\<open>.update({ status }).eq("id", batchId)\<close> on \<open>batches\<close>, when the store accepts it.\<close>

definition update_status :: "ident \<Rightarrow> batch_status \<Rightarrow> database \<Rightarrow> database" where
  "update_status batchId newStatus db =
     db\<lparr> batches_tbl :=
          map (\<lambda>b. if b_id b = batchId then b\<lparr>b_status := newStatus\<rparr> else b)
              (batches_tbl db) \<rparr>"

definition handleUpdateBatchStatus ::
  "bool \<Rightarrow> load_reply \<Rightarrow> ident \<Rightarrow> batch_status \<Rightarrow> database \<Rightarrow> page_state
     \<Rightarrow> database \<times> page_state" where
  "handleUpdateBatchStatus update_ok reload batchId newStatus db s =
     (let direct =
            (if update_ok
             then (let db1 = update_status batchId newStatus db
                   in (db1, loadBatches reload db1 s))
             else (db, alert ''Error updating batch status. Please try again.'' s))
      in if newStatus = Harvested
         then (case find (\<lambda>b. b_id b = batchId) (batches s) of
                 Some batch \<Rightarrow>
                   (db, (initializeHarvestData batch
                           (s\<lparr>selectedBatchForHarvest := Some batch\<rparr>))
                        \<lparr>showHarvestModal := True\<rparr>)
               | None \<Rightarrow> direct)
         else direct)"

text \<open>
  The replies of the store during \<open>handleSaveHarvestData\<close>, in the order of the calls:
  the cost-entry query, the query for existing summaries, the delete of old details, the
  delete of old summaries, the insert of the summary (the identifier the store gave the
  row, \<open>None\<close> on error), the insert of the details, the status update. A call that
  fails leaves its table as it was.
\<close>

record save_replies =
  sr_costs_ok :: bool
  sr_fetch_ok :: bool
  sr_delete_details_ok :: bool
  sr_delete_summaries_ok :: bool
  sr_summary_insert :: "ident option"
  sr_details_ok :: bool
  sr_status_ok :: bool

definition harvestDetails :: "ident \<Rightarrow> harvest_data list \<Rightarrow> harvest_detail_row list" where
  "harvestDetails summaryId hds =
     map (\<lambda>strain. \<lparr> hdr_harvest_summary_id = summaryId,
                     hdr_strain_id = hd_strain_id strain,
                     hdr_strain_name = hd_strain_name strain,
                     hdr_bigs_lbs = bigs_lbs strain,
                     hdr_smalls_lbs = smalls_lbs strain,
                     hdr_micros_lbs = micros_lbs strain \<rparr>)
         hds"

definition handleSaveHarvestData ::
  "save_replies \<Rightarrow> int \<Rightarrow> database \<Rightarrow> page_state \<Rightarrow> database \<times> page_state" where
  "handleSaveHarvestData replies today db s =
     (case selectedBatchForHarvest s of
        None \<Rightarrow> (db, s)
      | Some sel \<Rightarrow>
          (let (summary, s1) = calculateHarvestSummary (sr_costs_ok replies) db today s;
               existingSummaries =
                 (if sr_fetch_ok replies
                  then Some (map hs_id (filter (\<lambda>r. hs_batch_id r = b_id sel)
                                               (harvest_summaries_tbl db)))
                  else None);
               db1 = (case existingSummaries of
                        Some (i # is) \<Rightarrow>
                          if sr_delete_details_ok replies
                          then db\<lparr> harvest_details_tbl :=
                                    filter (\<lambda>d. hdr_harvest_summary_id d \<notin> set (i # is))
                                           (harvest_details_tbl db) \<rparr>
                          else db
                      | _ \<Rightarrow> db);
               db2 = (if sr_delete_summaries_ok replies
                      then db1\<lparr> harvest_summaries_tbl :=
                                 filter (\<lambda>r. hs_batch_id r \<noteq> b_id sel)
                                        (harvest_summaries_tbl db1) \<rparr>
                      else db1)
           in case sr_summary_insert replies of
                None \<Rightarrow> (db2, alert ''Error saving harvest summary. Please try again.'' s1)
              | Some summaryId \<Rightarrow>
                  (let db3 = db2\<lparr> harvest_summaries_tbl := harvest_summaries_tbl db2 @
                                   [\<lparr> hs_id = summaryId,
                                      hs_batch_id = b_id sel,
                                      hs_total_harvest_lbs = total_harvest_lbs summary,
                                      hs_yield_per_light = yield_per_light summary,
                                      hs_total_lights =
                                        (case lights_assigned sel of None \<Rightarrow> 0 | Some n \<Rightarrow> n),
                                      hs_harvest_date = today div ms_per_day \<rparr>] \<rparr>
                   in if \<not> sr_details_ok replies
                      then (db3, alert ''Error saving harvest details. Please try again.'' s1)
                      else (let db4 = db3\<lparr> harvest_details_tbl := harvest_details_tbl db3 @
                                             harvestDetails summaryId (harvestData s1) \<rparr>
                            in if \<not> sr_status_ok replies
                               then (db4, alert ''Error updating batch status. Please try again.'' s1)
                               else (update_status (b_id sel) Harvested db4,
                                     s1\<lparr> batches :=
                                           map (\<lambda>batch. if b_id batch = b_id sel
                                                         then batch\<lparr>b_status := Harvested\<rparr>
                                                         else batch)
                                               (batches s1),
                                         harvestDataSaved := True \<rparr>)))))"

section \<open>The facility page: deleting a room\<close>

record facility_room = room +
  current_batch :: "string option"
  has_current_batch :: bool

record facility_state =
  f_rooms :: "facility_room list"
  f_alerts :: "string list"

definition process_room :: "database \<Rightarrow> room \<Rightarrow> facility_room" where
  "process_room db rm =
     (let activeBatch =
            find (\<lambda>batch. b_status batch = Active)
                 (filter (\<lambda>batch. b_room_id batch = Some (r_id rm)) (batches_tbl db))
      in \<lparr> r_id = r_id rm,
           r_name = r_name rm,
           r_lights = r_lights rm,
           current_batch =
             (case activeBatch of
                None \<Rightarrow> None
              | Some batch \<Rightarrow>
                  (case b_batch_code batch of
                     None \<Rightarrow> None
                   | Some c \<Rightarrow> if c = [] then None else Some c)),
           has_current_batch = (activeBatch \<noteq> None) \<rparr>)"

definition loadRooms :: "bool \<Rightarrow> database \<Rightarrow> facility_state \<Rightarrow> facility_state" where
  "loadRooms ok db fs =
     (if ok then fs\<lparr>f_rooms := map (process_room db) (rooms_tbl db)\<rparr> else fs)"

text \<open>The requests a handler of the facility page sends to the store.\<close>

datatype store_call = DeleteRoom ident

definition handleDeleteRoom ::
  "bool \<Rightarrow> bool \<Rightarrow> ident \<Rightarrow> database \<Rightarrow> facility_state
     \<Rightarrow> store_call list \<times> database \<times> facility_state" where
  "handleDeleteRoom delete_ok reload_ok rid db fs =
     (case find (\<lambda>r. r_id r = rid) (f_rooms fs) of
        None \<Rightarrow> ([], db, fs)
      | Some rm \<Rightarrow>
          if \<not> has_current_batch rm
          then (if delete_ok
                then (let db1 = db\<lparr>rooms_tbl := filter (\<lambda>r. r_id r \<noteq> rid) (rooms_tbl db)\<rparr>
                      in ([DeleteRoom rid], db1, loadRooms reload_ok db1 fs))
                else ([DeleteRoom rid], db,
                      fs\<lparr>f_alerts := f_alerts fs @ [''Error deleting room. Please try again.'']\<rparr>))
          else ([], db, fs))"

section \<open>Initial values\<close>

text \<open>The state the batch page starts in (the arguments of its \<open>useState\<close> calls).\<close>

definition initial_state :: page_state where
  "initial_state =
     \<lparr> batches = [], rooms = [], strains = [],
       newBatch = empty_new_batch,
       batchStrains = [],
       selectedStrain = [], lightsForStrain = [], percentageForStrain = [],
       showHarvestModal = False,
       selectedBatchForHarvest = None,
       harvestData = [], harvestSummary = None,
       harvestDataSaved = False, viewingExistingHarvest = False,
       alerts = [] \<rparr>"

definition initial_facility :: facility_state where
  "initial_facility = \<lparr> f_rooms = [], f_alerts = [] \<rparr>"

definition empty_db :: database where
  "empty_db =
     \<lparr> rooms_tbl = [], strains_tbl = [], batches_tbl = [], batch_strains_tbl = [],
       cost_entries_tbl = [], harvest_summaries_tbl = [], harvest_details_tbl = [] \<rparr>"

section \<open>Example data\<close>

definition demo_room :: room where
  "demo_room = \<lparr> r_id = ''room-7'', r_name = ''Flower Room 7'', r_lights = Some 10 \<rparr>"

definition demo_batch :: loaded_batch where
  "demo_batch =
     \<lparr> b_id = ''batch-1'', b_room_id = Some ''room-7'', b_strain_id = Some ''s1'',
       b_batch_code = Some ''R7-2024-01'', b_start_date = 100,
       b_expected_harvest = None, b_status = Active,
       room_name = Some ''Flower Room 7'', strain_name = ''Kush'',
       lights_assigned = Some 0, strain_percentage = 100,
       batch_strains = None \<rparr>"

definition demo_cost :: cost_entry where
  "demo_cost = \<lparr> ce_amount = 50, ce_batch_id = Some ''batch-1'', ce_room_id = None,
                 ce_date = 101 \<rparr>"

definition demo_db :: database where
  "demo_db =
     empty_db\<lparr> rooms_tbl := [demo_room],
               batches_tbl :=
                 [\<lparr> b_id = ''batch-1'', b_room_id = Some ''room-7'', b_strain_id = Some ''s1'',
                    b_batch_code = Some ''R7-2024-01'', b_start_date = 100,
                    b_expected_harvest = None, b_status = Harvested \<rparr>,
                  \<lparr> b_id = ''batch-2'', b_room_id = Some ''room-7'', b_strain_id = Some ''s1'',
                    b_batch_code = Some ''R7-2024-02'', b_start_date = 200,
                    b_expected_harvest = None, b_status = Archived \<rparr>,
                  \<lparr> b_id = ''batch-3'', b_room_id = Some ''room-7'', b_strain_id = Some ''s1'',
                    b_batch_code = Some ''R7-2023-01'', b_start_date = 10,
                    b_expected_harvest = None, b_status = Archived \<rparr>] \<rparr>"

definition demo_db_active :: database where
  "demo_db_active =
     demo_db\<lparr> batches_tbl := batches_tbl demo_db @
                 [\<lparr> b_id = ''batch-4'', b_room_id = Some ''room-7'', b_strain_id = Some ''s1'',
                    b_batch_code = Some ''R7-2024-03'', b_start_date = 300,
                    b_expected_harvest = None, b_status = Active \<rparr>] \<rparr>"

definition demo_state :: page_state where
  "demo_state =
     initial_state\<lparr> rooms := [demo_room],
                    strains := [\<lparr> st_id = ''s1'', st_name = ''Kush'' \<rparr>,
                                \<lparr> st_id = ''s2'', st_name = ''Haze'' \<rparr>],
                    newBatch := empty_new_batch\<lparr> nb_room_id := ''room-7'',
                                                 nb_start_date := Some 400 \<rparr> \<rparr>"

text \<open>
  A room without a known capacity beside the room of ten lights. The strain fields are
  filled in while the room of ten lights is selected (5 lights, for which the form
  enters 50.0 percent); selecting the other room afterwards leaves the fields as they
  are.
\<close>

definition null_room :: room where
  "null_room = \<lparr> r_id = ''room-9'', r_name = ''Dry Room'', r_lights = None \<rparr>"

definition null_cap_form :: page_state where
  "null_cap_form =
     initial_state\<lparr> rooms := [demo_room, null_room],
                    strains := [\<lparr> st_id = ''s1'', st_name = ''Kush'' \<rparr>,
                                \<lparr> st_id = ''s2'', st_name = ''Haze'' \<rparr>],
                    newBatch := empty_new_batch\<lparr> nb_room_id := ''room-9'',
                                                 nb_start_date := Some 400 \<rparr>,
                    selectedStrain := ''s1'',
                    lightsForStrain := ''5'',
                    percentageForStrain := ''50.0'' \<rparr>"

text \<open>The same form after the strain is added: the list holds it, the fields are empty.\<close>

definition null_cap_state :: page_state where
  "null_cap_state =
     null_cap_form\<lparr> batchStrains :=
                       [\<lparr> bs_strain_id = ''s1'', bs_strain_name = ''Kush'',
                          bs_lights_assigned = 5, bs_percentage = 50 \<rparr>],
                     selectedStrain := [],
                     lightsForStrain := [],
                     percentageForStrain := [] \<rparr>"

text \<open>
  What \<open>parseInt\<close> and \<open>parseFloat\<close> return on the texts the examples type into the
  form.
\<close>

definition demo_parseInt :: "string \<Rightarrow> int" where
  "demo_parseInt t = (if t = ''4'' then 4 else if t = ''5'' then 5 else 1)"

definition demo_parseFloat :: "string \<Rightarrow> rat" where
  "demo_parseFloat t =
     (if t = ''66.7'' then fl (667 / 10) else if t = ''16.7'' then fl (167 / 10) else 50)"




definition demo_harvest :: harvest_data where
  "demo_harvest =
     \<lparr> hd_strain_id = ''s1'', hd_strain_name = ''Kush'',
       bigs_lbs = 10, smalls_lbs = 5, micros_lbs = 2,
       bigs_price_per_lb = 20, smalls_price_per_lb = 10, micros_price_per_lb = 5 \<rparr>"

definition harvest_state :: page_state where
  "harvest_state =
     initial_state\<lparr> rooms := [demo_room],
                    batches := [demo_batch],
                    showHarvestModal := True,
                    selectedBatchForHarvest := Some demo_batch,
                    harvestData := [demo_harvest] \<rparr>"

definition harvest_db :: database where
  "harvest_db =
     empty_db\<lparr> rooms_tbl := [demo_room],
               batches_tbl :=
                 [\<lparr> b_id = ''batch-1'', b_room_id = Some ''room-7'', b_strain_id = Some ''s1'',
                    b_batch_code = Some ''R7-2024-01'', b_start_date = 100,
                    b_expected_harvest = None, b_status = Active \<rparr>] \<rparr>"

text \<open>
  A store that already holds harvest rows: an earlier summary \<open>hs-0\<close> of batch 1 with
  its detail row, and a summary \<open>hs-9\<close> of batch 2 with its detail row.
\<close>

definition resave_db :: database where
  "resave_db =
     harvest_db\<lparr> harvest_summaries_tbl :=
                   [\<lparr> hs_id = ''hs-0'', hs_batch_id = ''batch-1'', hs_total_harvest_lbs = 3,
                      hs_yield_per_light = Some 3, hs_total_lights = 0, hs_harvest_date = 90 \<rparr>,
                    \<lparr> hs_id = ''hs-9'', hs_batch_id = ''batch-2'', hs_total_harvest_lbs = 8,
                      hs_yield_per_light = Some 8, hs_total_lights = 0, hs_harvest_date = 80 \<rparr>],
                 harvest_details_tbl :=
                   [\<lparr> hdr_harvest_summary_id = ''hs-0'', hdr_strain_id = ''s1'',
                      hdr_strain_name = ''Kush'', hdr_bigs_lbs = 1, hdr_smalls_lbs = 1,
                      hdr_micros_lbs = 1 \<rparr>,
                    \<lparr> hdr_harvest_summary_id = ''hs-9'', hdr_strain_id = ''s2'',
                      hdr_strain_name = ''Haze'', hdr_bigs_lbs = 8, hdr_smalls_lbs = 0,
                      hdr_micros_lbs = 0 \<rparr>] \<rparr>"

definition save_ok :: "ident \<Rightarrow> save_replies" where
  "save_ok summaryId =
     \<lparr> sr_costs_ok = True, sr_fetch_ok = True, sr_delete_details_ok = True,
       sr_delete_summaries_ok = True, sr_summary_insert = Some summaryId,
       sr_details_ok = True, sr_status_ok = True \<rparr>"


section \<open>Specification-side notions\<close>

text \<open>
  Following the specification's words, "zero-padded to two digits": a sequence number
  below ten is written with a leading zero, any other as it is.
\<close>

definition two_digits :: "nat \<Rightarrow> string" where
  "two_digits n = (if n < 10 then CHR ''0'' # decimal n else decimal n)"

text \<open>The status the store holds for a batch, if the batch exists.\<close>

definition stored_status :: "database \<Rightarrow> ident \<Rightarrow> batch_status option" where
  "stored_status db batchId =
     map_option b_status (find (\<lambda>b. b_id b = batchId) (batches_tbl db))"

text \<open>The summary rows the store holds for a batch, and the detail rows that refer to them.\<close>

definition summaries_of :: "database \<Rightarrow> ident \<Rightarrow> harvest_summary_row list" where
  "summaries_of db batchId =
     filter (\<lambda>r. hs_batch_id r = batchId) (harvest_summaries_tbl db)"

definition details_of :: "database \<Rightarrow> ident \<Rightarrow> harvest_detail_row list" where
  "details_of db batchId =
     filter (\<lambda>d. hdr_harvest_summary_id d \<in> hs_id ` set (summaries_of db batchId))
            (harvest_details_tbl db)"

text \<open>
  An identifier is new to the store's harvest tables: no summary row has it and no
  detail row refers to it.
\<close>

definition new_summary_id :: "database \<Rightarrow> ident \<Rightarrow> bool" where
  "new_summary_id db i =
     (i \<notin> hs_id ` set (harvest_summaries_tbl db)
      \<and> i \<notin> hdr_harvest_summary_id ` set (harvest_details_tbl db))"



section \<open>Properties\<close>

subsection \<open>Rounding to a double\<close>

text \<open>
  \<open>fl\<close> picks a multiple of the right power of two, is at most half a unit in the last
  place away from its argument, leaves a double as it is, and leaves every integer up to
  \<open>2^53\<close> as it is.
\<close>

lemma powi_two_pos: "(0::rat) < 2 powi k"
  by (simp add: power_int_def)

lemma powi_two_mono: "a \<le> b \<Longrightarrow> (2::rat) powi a \<le> 2 powi b"
  by (rule power_int_increasing) simp_all

lemma powi_two_strict: "a < b \<Longrightarrow> (2::rat) powi a < 2 powi b"
  by (rule power_int_strict_increasing) simp_all

lemma powi_two_Suc: "(2::rat) powi (k + 1) = 2 * 2 powi k"
  by (simp add: power_int_add)

lemma bitlen_rat_bounds:
  assumes "0 < a"
  shows "(2::rat) powi (bitlen a - 1) \<le> of_int a" and "(of_int a :: rat) < 2 powi bitlen a"
proof -
  from bitlen_bounds [OF assms]
  have l: "2 ^ nat (bitlen a - 1) \<le> a" and u: "a < 2 ^ nat (bitlen a)" by simp_all
  have p: "1 \<le> bitlen a" using assms bitlen_eq_zero_iff [of a] bitlen_nonneg [of a] by linarith
  have "(of_int (2 ^ nat (bitlen a - 1)) :: rat) \<le> of_int a" using l by (simp only: of_int_le_iff)
  then show "(2::rat) powi (bitlen a - 1) \<le> of_int a"
    using p by (simp add: power_int_def)
  have "(of_int a :: rat) < of_int (2 ^ nat (bitlen a))" using u by (simp only: of_int_less_iff)
  then show "(of_int a :: rat) < 2 powi bitlen a"
    using p by (simp add: power_int_def)
qed

lemma flog2_bounds:
  assumes "0 < x"
  shows "2 powi flog2 x \<le> x" and "x < 2 powi (flog2 x + 1)"
proof -
  obtain a b where q: "quotient_of x = (a, b)" by (cases "quotient_of x")
  then have b: "0 < b" using quotient_of_denom_pos by blast
  have x: "x = of_int a / of_int b" using q by (rule quotient_of_div)
  have a: "0 < a" using assms b x by (simp add: zero_less_divide_iff)
  let ?k = "bitlen a - bitlen b"
  have bq: "(0::rat) < of_int b" using b by simp
  have up: "x < 2 powi (?k + 1)"
  proof -
    have "of_int a < (2::rat) powi bitlen a" using a by (rule bitlen_rat_bounds)
    moreover have "(2::rat) powi (bitlen b - 1) \<le> of_int b" using b by (rule bitlen_rat_bounds)
    ultimately have "of_int a * 2 powi (bitlen b - 1) < (2::rat) powi bitlen a * of_int b"
      using bq powi_two_pos [of "bitlen b - 1"]
      by (meson mult_less_le_imp_less less_eq_rat_def of_int_0_le_iff a less_imp_le)
    then have "x * 2 powi (bitlen b - 1) < (2::rat) powi bitlen a"
      using bq by (simp add: x field_simps)
    then have "x < 2 powi bitlen a / 2 powi (bitlen b - 1)"
      using powi_two_pos [of "bitlen b - 1"] by (simp add: field_simps)
    also have "\<dots> = 2 powi (bitlen a - (bitlen b - 1))"
      by (simp add: power_int_diff)
    also have "bitlen a - (bitlen b - 1) = ?k + 1" by simp
    finally show ?thesis .
  qed
  have lo: "2 powi (?k - 1) < x"
  proof -
    have "(2::rat) powi (bitlen a - 1) \<le> of_int a" using a by (rule bitlen_rat_bounds)
    moreover have "of_int b < (2::rat) powi bitlen b" using b by (rule bitlen_rat_bounds)
    ultimately have "2 powi (bitlen a - 1) * of_int b < of_int a * (2::rat) powi bitlen b"
      using bq powi_two_pos [of "bitlen a - 1"]
      by (intro mult_le_less_imp_less) simp_all
    then have "2 powi (bitlen a - 1) / (2::rat) powi bitlen b < x"
      using bq powi_two_pos [of "bitlen b"] by (simp add: x field_simps)
    moreover have "2 powi (bitlen a - 1) / (2::rat) powi bitlen b = 2 powi (bitlen a - 1 - bitlen b)"
      by (simp add: power_int_diff)
    moreover have "bitlen a - 1 - bitlen b = ?k - 1" by simp
    ultimately show ?thesis by simp
  qed
  have f: "flog2 x = (if 2 powi ?k \<le> x then ?k else ?k - 1)"
    by (simp add: flog2_def q Let_def)
  show "2 powi flog2 x \<le> x" using lo f by (auto simp add: less_imp_le)
  show "x < 2 powi (flog2 x + 1)" using up f by (auto simp add: not_le)
qed


lemma flog2_unique:
  assumes "2 powi e \<le> x" and "x < 2 powi (e + 1)"
  shows "flog2 x = e"
proof -
  have x: "0 < x" using assms(1) powi_two_pos [of e] by linarith
  note b = flog2_bounds [OF x]
  have "flog2 x < e + 1"
  proof (rule ccontr)
    assume "\<not> flog2 x < e + 1"
    then have "(2::rat) powi (e + 1) \<le> 2 powi flog2 x" by (intro powi_two_mono) simp
    with b(1) assms(2) show False by simp
  qed
  moreover have "e < flog2 x + 1"
  proof (rule ccontr)
    assume "\<not> e < flog2 x + 1"
    then have "(2::rat) powi (flog2 x + 1) \<le> 2 powi e" by (intro powi_two_mono) simp
    with b(2) assms(1) show False by simp
  qed
  ultimately show ?thesis by simp
qed

lemma round_even_error: "\<bar>of_int (round_even y) - y\<bar> \<le> 1 / 2"
proof -
  have "of_int \<lfloor>y\<rfloor> \<le> y" and "y < of_int \<lfloor>y\<rfloor> + 1" by linarith+
  then show ?thesis
    by (auto simp add: round_even_def Let_def abs_le_iff)
qed

lemma round_even_of_int: "round_even (of_int k) = k"
  by (simp add: round_even_def)

lemma round_even_le: "y \<le> of_int n \<Longrightarrow> round_even y \<le> n"
proof -
  assume a: "y \<le> of_int n"
  show ?thesis
  proof (cases "y = of_int n")
    case True
    then show ?thesis by (simp add: round_even_of_int)
  next
    case False
    then have "y < of_int n" using a by simp
    then have "\<lfloor>y\<rfloor> < n" by (simp add: floor_less_iff)
    then have "\<lfloor>y\<rfloor> + 1 \<le> n" by simp
    moreover have "round_even y \<le> \<lfloor>y\<rfloor> + 1" by (simp add: round_even_def Let_def)
    ultimately show ?thesis by simp
  qed
qed

lemma round_even_ge: "of_int n \<le> y \<Longrightarrow> n \<le> round_even y"
proof -
  assume "of_int n \<le> y"
  then have "n \<le> \<lfloor>y\<rfloor>" by (simp add: le_floor_iff)
  moreover have "\<lfloor>y\<rfloor> \<le> round_even y" by (simp add: round_even_def Let_def)
  ultimately show ?thesis by simp
qed

lemma fl_pos_zero: "fl_pos 0 = 0"
  by (simp add: fl_pos_def round_even_def Let_def)

lemma fl_pos_nonneg: "0 \<le> x \<Longrightarrow> 0 \<le> fl_pos x"
proof -
  assume x: "0 \<le> x"
  let ?q = "max (flog2 x - 52) (- 1074)"
  have "(of_int 0 :: rat) \<le> x / 2 powi ?q" using x powi_two_pos [of ?q] by simp
  then have "0 \<le> round_even (x / 2 powi ?q)" by (rule round_even_ge)
  then show ?thesis using powi_two_pos [of ?q] by (simp add: fl_pos_def Let_def)
qed

text \<open>A positive number on the grid of its own exponent is not changed.\<close>

lemma fl_pos_grid:
  assumes "0 < x" and "x = of_int m * 2 powi p" and "max (flog2 x - 52) (- 1074) \<le> p"
  shows "fl_pos x = x"
proof -
  let ?q = "max (flog2 x - 52) (- 1074)"
  have "x / 2 powi ?q = of_int m * 2 powi (p - ?q)"
    by (simp add: assms(2) power_int_diff)
  also have "(2::rat) powi (p - ?q) = of_int (2 ^ nat (p - ?q))"
    using assms(3) by (simp add: power_int_def)
  finally have "x / 2 powi ?q = of_int (m * 2 ^ nat (p - ?q))" by simp
  then have "of_int (round_even (x / 2 powi ?q)) = x / 2 powi ?q"
    by (simp only: round_even_of_int)
  then show ?thesis using powi_two_pos [of ?q] by (simp add: fl_pos_def Let_def)
qed

lemma fl_pos_of_int:
  assumes "0 < n" and "n \<le> 2 ^ 53"
  shows "fl_pos (of_int n) = of_int n"
proof -
  let ?x = "of_int n :: rat"
  have x: "0 < ?x" using assms(1) by simp
  note b = flog2_bounds [OF x]
  have "?x \<le> of_int (2 ^ 53)" using assms(2) by (simp only: of_int_le_iff)
  then have u: "?x \<le> 2 powi 53" by simp
  show ?thesis
  proof (cases "?x = 2 powi 53")
    case True
    then have "flog2 ?x = 53" using powi_two_strict [of 53 54] by (intro flog2_unique) simp_all
    then have "max (flog2 ?x - 52) (- 1074) \<le> 53" by simp
    moreover have "?x = of_int 1 * 2 powi 53" using True by simp
    ultimately show ?thesis using x by (intro fl_pos_grid [where m = 1 and p = 53]) 
  next
    case False
    then have "?x < 2 powi 53" using u by simp
    then have "flog2 ?x < 53"
      using b(1) powi_two_mono [of 53 "flog2 ?x"] by (cases "flog2 ?x < 53") auto
    then have "max (flog2 ?x - 52) (- 1074) \<le> 0" by simp
    moreover have "?x = of_int n * 2 powi 0" by simp
    ultimately show ?thesis using x by (intro fl_pos_grid [where m = n and p = 0])
  qed
qed


lemma fl_pos_error:
  assumes "2 powi (- 1022) \<le> x"
  shows "\<bar>fl_pos x - x\<bar> \<le> 2 powi (- 53) * x"
proof -
  have x: "0 < x" using assms powi_two_pos [of "- 1022"] by linarith
  note b = flog2_bounds [OF x]
  have e: "- 1022 \<le> flog2 x"
  proof (rule ccontr)
    assume "\<not> - 1022 \<le> flog2 x"
    then have "(2::rat) powi (flog2 x + 1) \<le> 2 powi (- 1022)" by (intro powi_two_mono) simp
    with b(2) assms show False by simp
  qed
  let ?q = "flog2 x - 52"
  have q: "max (flog2 x - 52) (- 1074) = ?q" using e by simp
  have p: "(0::rat) < 2 powi ?q" by (rule powi_two_pos)
  have "fl_pos x - x = (of_int (round_even (x / 2 powi ?q)) - x / 2 powi ?q) * 2 powi ?q"
    using p by (simp add: fl_pos_def Let_def q field_simps)
  then have "\<bar>fl_pos x - x\<bar> = \<bar>of_int (round_even (x / 2 powi ?q)) - x / 2 powi ?q\<bar> * 2 powi ?q"
    using p by (simp add: abs_mult)
  also have "\<dots> \<le> 1 / 2 * 2 powi ?q"
    using p round_even_error [of "x / 2 powi ?q"] by (intro mult_right_mono) simp_all
  also have "1 / 2 * (2::rat) powi ?q = 2 powi (- 53) * 2 powi flog2 x"
  proof -
    have "(2::rat) powi ?q = 2 powi flog2 x * 2 powi (- 52)"
      by (simp add: power_int_diff power_int_minus field_simps)
    moreover have "(2::rat) powi (- 53) = 1 / 2 * 2 powi (- 52)"
      by (simp add: power_int_minus)
    ultimately show ?thesis by simp
  qed
  also have "\<dots> \<le> 2 powi (- 53) * x"
    using b(1) powi_two_pos [of "- 53"] by (intro mult_left_mono) simp_all
  finally show ?thesis .
qed

lemma fl_pos_idem:
  assumes "0 < x"
  shows "fl_pos (fl_pos x) = fl_pos x"
proof -
  note b = flog2_bounds [OF assms]
  let ?q = "max (flog2 x - 52) (- 1074)"
  let ?m = "round_even (x / 2 powi ?q)"
  let ?y = "fl_pos x"
  have p: "(0::rat) < 2 powi ?q" by (rule powi_two_pos)
  have y: "?y = of_int ?m * 2 powi ?q" by (simp add: fl_pos_def Let_def)
  have "x < 2 powi (?q + 53)"
  proof -
    have "(2::rat) powi (flog2 x + 1) \<le> 2 powi (?q + 53)" by (intro powi_two_mono) simp
    with b(2) show ?thesis by simp
  qed
  also have "(2::rat) powi (?q + 53) = 2 powi 53 * 2 powi ?q" by (simp add: power_int_add)
  finally have "x / 2 powi ?q < 2 powi 53" using p by (simp add: field_simps)
  then have "x / 2 powi ?q \<le> of_int (2 ^ 53)" by simp
  then have mu: "?m \<le> 2 ^ 53" by (rule round_even_le)
  have ml: "0 \<le> ?y" using assms by (intro fl_pos_nonneg) simp
  show ?thesis
  proof (cases "?y = 0")
    case True
    then show ?thesis by (simp add: fl_pos_zero)
  next
    case False
    then have yp: "0 < ?y" using ml by simp
    note c = flog2_bounds [OF yp]
    show ?thesis
    proof (cases "?m = 2 ^ 53")
      case True
      then have "?y = 2 powi 53 * 2 powi ?q" using y by simp
      then have y2: "?y = 2 powi (?q + 53)" by (simp add: power_int_add)
      have "flog2 ?y = ?q + 53"
        using powi_two_strict [of "?q + 53" "?q + 53 + 1"] by (intro flog2_unique) (simp_all add: y2)
      then have "max (flog2 ?y - 52) (- 1074) \<le> ?q + 53" by simp
      moreover have "?y = of_int 1 * 2 powi (?q + 53)" using y2 by simp
      ultimately show ?thesis using yp by (intro fl_pos_grid [where m = 1 and p = "?q + 53"])
    next
      case False
      then have "?m < 2 ^ 53" using mu by simp
      then have "(of_int ?m :: rat) < of_int (2 ^ 53)" by (simp only: of_int_less_iff)
      then have "(of_int ?m :: rat) < 2 powi 53" by simp
      then have "?y < 2 powi 53 * 2 powi ?q" using p y by simp
      then have "?y < 2 powi (?q + 53)" by (simp add: power_int_add)
      then have "flog2 ?y < ?q + 53"
        using c(1) powi_two_mono [of "?q + 53" "flog2 ?y"] by (cases "flog2 ?y < ?q + 53") auto
      then have "max (flog2 ?y - 52) (- 1074) \<le> ?q" by simp
      then show ?thesis using yp y by (intro fl_pos_grid [where m = ?m and p = ?q])
    qed
  qed
qed

lemma fl_zero: "fl 0 = 0"
  by (simp add: fl_def)

lemma fl_minus: "fl (- x) = - fl x"
  by (simp add: fl_def)

lemma fl_idem: "fl (fl x) = fl x"
proof -
  have pos: "fl (fl_pos y) = fl_pos y" if "0 < y" for y
  proof (cases "fl_pos y = 0")
    case True
    then show ?thesis by (simp add: fl_zero)
  next
    case False
    moreover have "0 \<le> fl_pos y" using that by (intro fl_pos_nonneg) simp
    ultimately have "0 < fl_pos y" by simp
    then have "fl (fl_pos y) = fl_pos (fl_pos y)" by (simp add: fl_def)
    then show ?thesis using that by (simp add: fl_pos_idem)
  qed
  show ?thesis
  proof (cases "x = 0")
    case True
    then show ?thesis by (simp add: fl_zero)
  next
    case False
    show ?thesis
    proof (cases "x < 0")
      case True
      then have "fl x = - fl_pos (- x)" by (simp add: fl_def)
      moreover have "fl (- fl_pos (- x)) = - fl (fl_pos (- x))" by (rule fl_minus)
      moreover have "fl (fl_pos (- x)) = fl_pos (- x)" using True by (intro pos) simp
      ultimately show ?thesis by simp
    next
      case False
      then have xp: "0 < x" using \<open>x \<noteq> 0\<close> by simp
      then have "fl x = fl_pos x" by (simp add: fl_def)
      then show ?thesis using pos [OF xp] by simp
    qed
  qed
qed

lemma fl_of_int:
  assumes "\<bar>n\<bar> \<le> 2 ^ 53"
  shows "fl (of_int n) = of_int n"
proof (cases "n = 0")
  case True
  then show ?thesis by (simp add: fl_zero)
next
  case False
  show ?thesis
  proof (cases "n < 0")
    case True
    then have "fl_pos (of_int (- n)) = of_int (- n)" using assms by (intro fl_pos_of_int) simp_all
    then show ?thesis using True by (simp add: fl_def)
  next
    case False
    then have "0 < n" using \<open>n \<noteq> 0\<close> by simp
    moreover from this have "fl_pos (of_int n) = of_int n" using assms by (intro fl_pos_of_int) simp_all
    ultimately show ?thesis by (simp add: fl_def)
  qed
qed

lemma fl_error:
  assumes "x = 0 \<or> 2 powi (- 1022) \<le> \<bar>x\<bar>"
  shows "\<bar>fl x - x\<bar> \<le> 2 powi (- 53) * \<bar>x\<bar>"
proof (cases "x = 0")
  case True
  then show ?thesis by (simp add: fl_zero)
next
  case False
  then have a: "2 powi (- 1022) \<le> \<bar>x\<bar>" using assms by simp
  show ?thesis
  proof (cases "x < 0")
    case True
    then have "\<bar>fl_pos (- x) - (- x)\<bar> \<le> 2 powi (- 53) * (- x)" using a by (intro fl_pos_error) simp
    moreover have "fl x - x = - (fl_pos (- x) - (- x))" using True by (simp add: fl_def)
    ultimately show ?thesis using True by (simp only: abs_minus_cancel abs_of_neg)
  next
    case False
    then have xp: "0 < x" using \<open>x \<noteq> 0\<close> by simp
    then have "\<bar>fl_pos x - x\<bar> \<le> 2 powi (- 53) * x" using a by (intro fl_pos_error) simp
    then show ?thesis using xp by (simp add: fl_def)
  qed
qed

subsection \<open>Harvest totals\<close>
























lemma summary_total_harvest:
  "total_harvest_lbs (fst (calculateHarvestSummary ok db today s))
     = foldl (\<lambda>total strain.
                js_add (js_add (js_add total (bigs_lbs strain)) (smalls_lbs strain))
                       (micros_lbs strain))
             0 (harvestData s)"
  by (simp add: calculateHarvestSummary_def Let_def)

lemma summary_total_revenue:
  "total_revenue (fst (calculateHarvestSummary ok db today s))
     = foldl (\<lambda>total strain.
                 js_add (js_add (js_add total
                           (js_mul (bigs_lbs strain) (bigs_price_per_lb strain)))
                           (js_mul (smalls_lbs strain) (smalls_price_per_lb strain)))
                        (js_mul (micros_lbs strain) (micros_price_per_lb strain)))
             0 (harvestData s)"
  by (simp add: calculateHarvestSummary_def Let_def)





subsection \<open>Guarded divisions\<close>

lemma fl_js_add: "fl (js_add a b) = js_add a b"
  by (simp add: js_add_def fl_idem)

lemma summary_totals_double:
  "fl (total_harvest_lbs (fst (calculateHarvestSummary ok db today s)))
     = total_harvest_lbs (fst (calculateHarvestSummary ok db today s))"
  "fl (total_revenue (fst (calculateHarvestSummary ok db today s)))
     = total_revenue (fst (calculateHarvestSummary ok db today s))"
proof -
  show "fl (total_harvest_lbs (fst (calculateHarvestSummary ok db today s)))
     = total_harvest_lbs (fst (calculateHarvestSummary ok db today s))"
    unfolding summary_total_harvest
    by (cases "harvestData s" rule: rev_cases) (simp_all add: fl_zero fl_js_add)
  show "fl (total_revenue (fst (calculateHarvestSummary ok db today s)))
     = total_revenue (fst (calculateHarvestSummary ok db today s))"
    unfolding summary_total_revenue
    by (cases "harvestData s" rule: rev_cases) (simp_all add: fl_zero fl_js_add)
qed

lemma summary_fields:
  "fst (calculateHarvestSummary ok db today s) = sm \<Longrightarrow>
   yield_per_light sm = js_div (total_harvest_lbs sm) (of_int (lights_or_one (selectedBatchForHarvest s)))
   \<and> revenue_per_light sm = js_div (total_revenue sm) (of_int (lights_or_one (selectedBatchForHarvest s)))
   \<and> cost_per_lb sm = (if total_harvest_lbs sm > 0 then js_div (cost_to_grow sm) (total_harvest_lbs sm) else Some 0)
   \<and> net_income_per_lb sm = (if total_harvest_lbs sm > 0 then js_div (profit_loss sm) (total_harvest_lbs sm) else Some 0)
   \<and> net_income_sales_ratio sm =
        (if total_revenue sm > 0
         then map_option (\<lambda>q. js_mul q 100) (js_div (profit_loss sm) (total_revenue sm))
         else Some 0)"
  by (auto simp add: calculateHarvestSummary_def Let_def)

lemma lights_or_one_nonzero: "lights_or_one sel \<noteq> 0"
  by (simp add: lights_or_one_def split: option.splits)

text \<open>
  C7. No division of the harvest summary has a zero denominator: each of the five
  quotients is a finite number. Yield and revenue per light divide by 1 when no batch is
  selected or the batch's lights are unset or 0, and by the lights otherwise (the
  quotient rounded to a double); cost per lb and net income per lb are 0 when the total
  weight is 0; the net-income/sales ratio is 0 when the total revenue is 0.
\<close>

theorem harvest_divisions_guarded:
  assumes "sm = fst (calculateHarvestSummary ok db today s)"
  shows "(\<exists>y r c n q. yield_per_light sm = Some y \<and> revenue_per_light sm = Some r
            \<and> cost_per_lb sm = Some c \<and> net_income_per_lb sm = Some n
            \<and> net_income_sales_ratio sm = Some q)
       \<and> (selectedBatchForHarvest s = None
            \<or> (\<exists>b. selectedBatchForHarvest s = Some b
                     \<and> (lights_assigned b = None \<or> lights_assigned b = Some 0))
          \<longrightarrow> yield_per_light sm = Some (total_harvest_lbs sm / 1)
              \<and> revenue_per_light sm = Some (total_revenue sm / 1))
       \<and> (\<forall>b n. selectedBatchForHarvest s = Some b \<and> lights_assigned b = Some n \<and> n \<noteq> 0
          \<longrightarrow> yield_per_light sm = Some (fl (total_harvest_lbs sm / of_int n))
              \<and> revenue_per_light sm = Some (fl (total_revenue sm / of_int n)))
       \<and> (total_harvest_lbs sm = 0 \<longrightarrow> cost_per_lb sm = Some 0 \<and> net_income_per_lb sm = Some 0)
       \<and> (total_revenue sm = 0 \<longrightarrow> net_income_sales_ratio sm = Some 0)"
proof -
  note f = summary_fields [OF assms [symmetric]]
  have nz: "(of_int (lights_or_one (selectedBatchForHarvest s)) :: rat) \<noteq> 0"
    using lights_or_one_nonzero by simp
  have d: "fl (total_harvest_lbs sm) = total_harvest_lbs sm"
    "fl (total_revenue sm) = total_revenue sm"
    using summary_totals_double [of ok db today s] assms by simp_all
  have 1: "\<exists>y r c n q. yield_per_light sm = Some y \<and> revenue_per_light sm = Some r
            \<and> cost_per_lb sm = Some c \<and> net_income_per_lb sm = Some n
            \<and> net_income_sales_ratio sm = Some q"
    using f nz by (simp add: js_div_def)
  have 2: "selectedBatchForHarvest s = None
            \<or> (\<exists>b. selectedBatchForHarvest s = Some b
                     \<and> (lights_assigned b = None \<or> lights_assigned b = Some 0))
          \<longrightarrow> yield_per_light sm = Some (total_harvest_lbs sm / 1)
              \<and> revenue_per_light sm = Some (total_revenue sm / 1)"
    using f d by (auto simp add: js_div_def lights_or_one_def split: option.splits if_splits)
  have 3: "\<forall>b n. selectedBatchForHarvest s = Some b \<and> lights_assigned b = Some n \<and> n \<noteq> 0
          \<longrightarrow> yield_per_light sm = Some (fl (total_harvest_lbs sm / of_int n))
              \<and> revenue_per_light sm = Some (fl (total_revenue sm / of_int n))"
    using f by (auto simp add: js_div_def lights_or_one_def split: option.splits if_splits)
  have 4: "total_harvest_lbs sm = 0 \<longrightarrow> cost_per_lb sm = Some 0 \<and> net_income_per_lb sm = Some 0"
    using f by simp
  have 5: "total_revenue sm = 0 \<longrightarrow> net_income_sales_ratio sm = Some 0"
    using f by simp
  from 1 2 3 4 5 show ?thesis by blast
qed

text \<open>
  A batch with 0 lights and no harvest entries: every quotient is 0.
\<close>

theorem harvest_divisions_guarded_witness:
  "selectedBatchForHarvest (initial_state\<lparr>selectedBatchForHarvest := Some demo_batch\<rparr>) = Some demo_batch
   \<and> lights_assigned demo_batch = Some 0
   \<and> total_harvest_lbs (fst (calculateHarvestSummary True empty_db 0
        (initial_state\<lparr>selectedBatchForHarvest := Some demo_batch\<rparr>))) = 0
   \<and> total_revenue (fst (calculateHarvestSummary True empty_db 0
        (initial_state\<lparr>selectedBatchForHarvest := Some demo_batch\<rparr>))) = 0
   \<and> yield_per_light (fst (calculateHarvestSummary True empty_db 0
        (initial_state\<lparr>selectedBatchForHarvest := Some demo_batch\<rparr>))) = Some 0
   \<and> revenue_per_light (fst (calculateHarvestSummary True empty_db 0
        (initial_state\<lparr>selectedBatchForHarvest := Some demo_batch\<rparr>))) = Some 0
   \<and> cost_per_lb (fst (calculateHarvestSummary True empty_db 0
        (initial_state\<lparr>selectedBatchForHarvest := Some demo_batch\<rparr>))) = Some 0
   \<and> net_income_per_lb (fst (calculateHarvestSummary True empty_db 0
        (initial_state\<lparr>selectedBatchForHarvest := Some demo_batch\<rparr>))) = Some 0
   \<and> net_income_sales_ratio (fst (calculateHarvestSummary True empty_db 0
        (initial_state\<lparr>selectedBatchForHarvest := Some demo_batch\<rparr>))) = Some 0"
proof -
  have t: "total_harvest_lbs (fst (calculateHarvestSummary True empty_db 0
        (initial_state\<lparr>selectedBatchForHarvest := Some demo_batch\<rparr>))) = 0"
    by (simp add: summary_total_harvest initial_state_def)
  have r: "total_revenue (fst (calculateHarvestSummary True empty_db 0
        (initial_state\<lparr>selectedBatchForHarvest := Some demo_batch\<rparr>))) = 0"
    by (simp add: summary_total_revenue initial_state_def)
  have l: "lights_assigned demo_batch = Some 0" by (simp add: demo_batch_def)
  show ?thesis
    using harvest_divisions_guarded [OF refl, of True empty_db 0
            "initial_state\<lparr>selectedBatchForHarvest := Some demo_batch\<rparr>"] t r l
    by auto
qed

subsection \<open>Cost to grow\<close>

lemma rate_value: "electricityCostPerLightPerDay = 6079859496950169 / 2251799813685248"
  by code_simp

lemma fl_ceiling_quotient:
  assumes "\<bar>n\<bar> < 2 ^ 53" and "0 < m" and "2 powi (- 1022) \<le> 1 / (of_int m :: rat)"
  shows "\<lceil>fl (of_int n / of_int m)\<rceil> = \<lceil>(of_int n :: rat) / of_int m\<rceil>"
proof (cases "m dvd n")
  case True
  then obtain k where k: "n = m * k" by (rule dvdE)
  then have q: "(of_int n :: rat) / of_int m = of_int k" using assms(2) by simp
  have "\<bar>k\<bar> \<le> \<bar>n\<bar>"
  proof -
    have "\<bar>n\<bar> = \<bar>m\<bar> * \<bar>k\<bar>" using k by (simp add: abs_mult)
    moreover have "1 \<le> \<bar>m\<bar>" using assms(2) by simp
    ultimately show ?thesis by (metis abs_ge_zero mult_le_cancel_right1 mult.commute mult_right_mono mult_1)
  qed
  then have "\<bar>k\<bar> \<le> 2 ^ 53" using assms(1) by simp
  then have "fl (of_int k) = of_int k" by (rule fl_of_int)
  then show ?thesis by (simp add: q)
next
  case False
  let ?q = "(of_int n :: rat) / of_int m"
  let ?c = "\<lceil>?q\<rceil>"
  have mp: "(0::rat) < of_int m" using assms(2) by simp
  have n0: "n \<noteq> 0" using False by auto
  have up: "?q \<le> of_int ?c" by (rule le_of_int_ceiling)
  have lo: "of_int ?c - 1 < ?q" by linarith
  have qm: "?q * of_int m = of_int n" using mp by simp
  have "?q * of_int m \<le> of_int ?c * of_int m" using up mp by (intro mult_right_mono) simp_all
  then have "(of_int n :: rat) \<le> of_int (?c * m)" unfolding qm by simp
  then have "n \<le> ?c * m" by (simp only: of_int_le_iff)
  moreover have "n \<noteq> ?c * m"
  proof
    assume "n = ?c * m"
    then have "m dvd n" by (metis dvd_triv_right)
    with False show False by contradiction
  qed
  ultimately have "n + 1 \<le> ?c * m" by simp
  then have "(of_int (n + 1) :: rat) \<le> of_int (?c * m)" by (simp only: of_int_le_iff)
  then have "(of_int n + 1) / of_int m \<le> (of_int ?c * of_int m) / (of_int m :: rat)"
    using mp by (intro divide_right_mono) simp_all
  then have gap_up: "?q + 1 / of_int m \<le> of_int ?c" using mp by (simp add: add_divide_distrib)
  have "(of_int ?c - 1) * of_int m < ?q * of_int m" using lo mp by (intro mult_strict_right_mono)
  then have "(of_int ((?c - 1) * m) :: rat) < of_int n" unfolding qm by simp
  then have "(?c - 1) * m < n" by (simp only: of_int_less_iff)
  then have "(?c - 1) * m + 1 \<le> n" by simp
  then have "(of_int ((?c - 1) * m + 1) :: rat) \<le> of_int n" by (simp only: of_int_le_iff)
  then have "((of_int ?c - 1) * of_int m + 1) / of_int m \<le> (of_int n :: rat) / of_int m"
    using mp by (intro divide_right_mono) simp_all
  then have gap_lo: "of_int ?c - 1 + 1 / of_int m \<le> ?q" using mp by (simp add: add_divide_distrib)
  have qa: "\<bar>?q\<bar> = of_int \<bar>n\<bar> / of_int m" using mp by (simp add: abs_divide)
  have "1 \<le> \<bar>n\<bar>" using n0 by simp
  then have "(1::rat) \<le> of_int \<bar>n\<bar>" by (simp only: of_int_1_le_iff)
  then have l1: "1 / of_int m \<le> \<bar>?q\<bar>" unfolding qa using mp by (simp add: divide_right_mono)
  have "2 powi (- 1022) \<le> \<bar>?q\<bar>" by (rule order_trans [OF assms(3) l1])
  then have e: "\<bar>fl ?q - ?q\<bar> \<le> 2 powi (- 53) * \<bar>?q\<bar>" by (intro fl_error disjI2)
  have "(of_int \<bar>n\<bar> :: rat) < of_int (2 ^ 53)" using assms(1) by (simp only: of_int_less_iff)
  then have "(of_int \<bar>n\<bar> :: rat) < 2 ^ 53" by simp
  then have "2 powi (- 53) * (of_int \<bar>n\<bar> :: rat) < 1"
    by (simp add: power_int_minus field_simps)
  then have "2 powi (- 53) * \<bar>?q\<bar> < 1 / of_int m"
    unfolding qa using mp by (simp add: field_simps)
  with e have d: "\<bar>fl ?q - ?q\<bar> < 1 / of_int m" by simp
  have "of_int ?c - 1 < fl ?q" using d gap_lo by (simp add: abs_less_iff)
  moreover have "fl ?q \<le> of_int ?c" using d gap_up by (simp add: abs_less_iff)
  ultimately show ?thesis by (intro ceiling_unique) simp_all
qed

lemma daysActive_days:
  assumes "\<bar>today - S * 86400000\<bar> < 2 ^ 53"
  shows "daysActive today S = \<lceil>(of_int today :: rat) / 86400000 - of_int S\<rceil>"
proof -
  have p: "2 powi (- 1022) \<le> 1 / (of_int 86400000 :: rat)"
  proof -
    have "(2::rat) powi (- 1022) \<le> 2 powi (- 27)" by (intro powi_two_mono) simp
    also have "\<dots> \<le> 1 / of_int 86400000" by (simp add: power_int_minus)
    finally show ?thesis .
  qed
  have "\<lceil>fl (of_int (today - S * 86400000) / of_int 86400000)\<rceil>
          = \<lceil>(of_int (today - S * 86400000) :: rat) / of_int 86400000\<rceil>"
    using assms p by (intro fl_ceiling_quotient) simp_all
  moreover have "(of_int (today - S * 86400000) :: rat) / of_int 86400000
                   = of_int today / 86400000 - of_int S"
    by (simp add: field_simps)
  ultimately have "\<lceil>fl (of_int (today - S * 86400000) / of_int 86400000)\<rceil>
          = \<lceil>(of_int today :: rat) / 86400000 - of_int S\<rceil>"
    by (simp only:)
  moreover have "ms_per_day = 86400000" by (simp add: ms_per_day_def)
  ultimately show ?thesis by (simp only: daysActive_def)
qed


lemma fl_error_large:
  assumes "x = 0 \<or> 1 \<le> \<bar>x\<bar>"
  shows "\<bar>fl x - x\<bar> \<le> \<bar>x\<bar> / 2 ^ 53"
proof -
  have "(2::rat) powi (- 1022) \<le> 2 powi 0" by (intro powi_two_mono) simp
  then have "(2::rat) powi (- 1022) \<le> 1" by simp
  then have "x = 0 \<or> 2 powi (- 1022) \<le> \<bar>x\<bar>" using assms by auto
  then have "\<bar>fl x - x\<bar> \<le> 2 powi (- 53) * \<bar>x\<bar>" by (rule fl_error)
  moreover have "(2::rat) powi (- 53) * \<bar>x\<bar> = \<bar>x\<bar> / 2 ^ 53"
    by (simp add: power_int_minus field_simps)
  ultimately show ?thesis by simp
qed

lemma electricity_error:
  fixes N D :: int
  defines "c \<equiv> (6079859496950169 / 2251799813685248 :: rat)"
  shows "\<bar>js_mul (js_mul (of_int N) c) (of_int D) - of_int N * (27 / 10) * of_int D\<bar>
           \<le> \<bar>of_int N * (27 / 10) * of_int D\<bar> / 10 ^ 15"
proof -
  let ?A = "\<bar>of_int N :: rat\<bar>"
  let ?B = "\<bar>of_int D :: rat\<bar>"
  let ?u = "(1 / 2 ^ 53 :: rat)"
  let ?x1 = "of_int N * c"
  let ?r1 = "fl ?x1"
  let ?x2 = "?r1 * of_int D"
  let ?r2 = "fl ?x2"
  have cp: "0 < c" "1 \<le> c" "c \<le> 27 / 10" by (simp_all add: c_def)
  have A: "0 \<le> ?A" and B: "0 \<le> ?B" by simp_all
  have x1: "\<bar>?x1\<bar> = c * ?A" using cp by (simp add: abs_mult)
  have Aint: "N \<noteq> 0 \<Longrightarrow> 1 \<le> ?A"
  proof -
    assume "N \<noteq> 0"
    then have "1 \<le> \<bar>N\<bar>" by simp
    then have "(1::rat) \<le> of_int \<bar>N\<bar>" by (simp only: of_int_1_le_iff)
    then show ?thesis by simp
  qed
  have Bint: "D \<noteq> 0 \<Longrightarrow> 1 \<le> ?B"
  proof -
    assume "D \<noteq> 0"
    then have "1 \<le> \<bar>D\<bar>" by simp
    then have "(1::rat) \<le> of_int \<bar>D\<bar>" by (simp only: of_int_1_le_iff)
    then show ?thesis by simp
  qed
  have "?x1 = 0 \<or> 1 \<le> \<bar>?x1\<bar>"
  proof (cases "N = 0")
    case True
    then show ?thesis by simp
  next
    case False
    then have "1 * 1 \<le> c * ?A" using cp Aint by (intro mult_mono) simp_all
    then show ?thesis unfolding x1 by simp
  qed
  then have "\<bar>?r1 - ?x1\<bar> \<le> \<bar>?x1\<bar> / 2 ^ 53" by (rule fl_error_large)
  then have e1: "\<bar>?r1 - ?x1\<bar> \<le> ?u * c * ?A" unfolding x1 by simp
  have "\<bar>?r1\<bar> \<le> \<bar>?x1\<bar> + \<bar>?r1 - ?x1\<bar>" by simp
  then have r1u: "\<bar>?r1\<bar> \<le> (1 + ?u) * c * ?A" using e1 unfolding x1 by (simp add: algebra_simps)
  have "\<bar>?x1\<bar> \<le> \<bar>?r1\<bar> + \<bar>?r1 - ?x1\<bar>" by simp
  then have r1l: "(1 - ?u) * c * ?A \<le> \<bar>?r1\<bar>" using e1 unfolding x1 by (simp add: algebra_simps)
  have x2: "\<bar>?x2\<bar> = \<bar>?r1\<bar> * ?B" by (simp add: abs_mult)
  have "?x2 = 0 \<or> 1 \<le> \<bar>?x2\<bar>"
  proof (cases "N = 0 \<or> D = 0")
    case True
    then show ?thesis by (auto simp add: fl_zero)
  next
    case False
    then have a: "1 \<le> ?A" and b: "1 \<le> ?B" using Aint Bint by simp_all
    have "1 \<le> (1 - ?u) * c" using cp by (simp add: c_def)
    then have "1 * 1 \<le> ((1 - ?u) * c) * ?A" using a by (intro mult_mono) simp_all
    then have "1 \<le> \<bar>?r1\<bar>" using r1l by simp
    then have "1 * 1 \<le> \<bar>?r1\<bar> * ?B" using b by (intro mult_mono) simp_all
    then show ?thesis unfolding x2 by simp
  qed
  then have "\<bar>?r2 - ?x2\<bar> \<le> \<bar>?x2\<bar> / 2 ^ 53" by (rule fl_error_large)
  then have "\<bar>?r2 - ?x2\<bar> \<le> ?u * (\<bar>?r1\<bar> * ?B)" unfolding x2 by simp
  also have "\<dots> \<le> ?u * (((1 + ?u) * c * ?A) * ?B)"
    using r1u B by (intro mult_left_mono mult_right_mono) simp_all
  finally have t1: "\<bar>?r2 - ?x2\<bar> \<le> ?u * (1 + ?u) * c * (?A * ?B)" by (simp add: algebra_simps)
  have "\<bar>?x2 - ?x1 * of_int D\<bar> = \<bar>?r1 - ?x1\<bar> * ?B"
    by (simp add: abs_mult flip: left_diff_distrib)
  also have "\<dots> \<le> (?u * c * ?A) * ?B" using e1 B by (intro mult_right_mono) simp_all
  finally have t2: "\<bar>?x2 - ?x1 * of_int D\<bar> \<le> ?u * c * (?A * ?B)" by (simp add: algebra_simps)
  have "?x1 * of_int D - of_int N * (27 / 10) * of_int D = (c - 27 / 10) * (of_int N * of_int D)"
    by (simp add: algebra_simps)
  then have "\<bar>?x1 * of_int D - of_int N * (27 / 10) * of_int D\<bar> = \<bar>c - 27 / 10\<bar> * (?A * ?B)"
    by (simp add: abs_mult)
  then have t3: "\<bar>?x1 * of_int D - of_int N * (27 / 10) * of_int D\<bar> = (27 / 10 - c) * (?A * ?B)"
    using cp by simp
  have "\<bar>?r2 - of_int N * (27 / 10) * of_int D\<bar>
          \<le> \<bar>?r2 - ?x2\<bar> + \<bar>?x2 - ?x1 * of_int D\<bar>
              + \<bar>?x1 * of_int D - of_int N * (27 / 10) * of_int D\<bar>"
    by simp
  also have "\<dots> \<le> ?u * (1 + ?u) * c * (?A * ?B) + ?u * c * (?A * ?B) + (27 / 10 - c) * (?A * ?B)"
    by (intro add_mono t1 t2 order_eq_refl [OF t3])
  also have "\<dots> = (?u * (1 + ?u) * c + ?u * c + (27 / 10 - c)) * (?A * ?B)"
    by (simp add: algebra_simps)
  also have "\<dots> \<le> (27 / 10 / 10 ^ 15) * (?A * ?B)"
  proof -
    have "?u * (1 + ?u) * c + ?u * c + (27 / 10 - c) \<le> 27 / 10 / 10 ^ 15"
      by (simp add: c_def)
    moreover have "0 \<le> ?A * ?B" by simp
    ultimately show ?thesis by (rule mult_right_mono)
  qed
  also have "\<dots> = \<bar>of_int N * (27 / 10) * of_int D\<bar> / 10 ^ 15"
    by (simp add: abs_mult)
  finally show ?thesis by (simp add: js_mul_def)
qed


lemma js_add_zero_mul: "js_add 0 (js_mul a b) = js_mul a b"
  by (simp add: js_add_def js_mul_def fl_idem)

lemma cost_structure:
  assumes "find (\<lambda>r. r_id r = roomId) (rooms s) = Some rm" and "r_lights rm = Some N"
    and "\<bar>today - S * 86400000\<bar> < 2 ^ 53"
  shows "calculateCostToGrow True db today s batchId roomId S
           = js_add (foldl (\<lambda>sum entry. js_add sum (ce_amount entry)) 0
                       (filter (\<lambda>e. (ce_batch_id e = Some batchId \<or> ce_room_id e = Some roomId)
                                      \<and> S \<le> ce_date e \<and> ce_date e \<le> today div 86400000)
                               (cost_entries_tbl db)))
                    (js_mul (js_mul (of_int N) (6079859496950169 / 2251799813685248))
                            (of_int \<lceil>(of_int today :: rat) / 86400000 - of_int S\<rceil>))"
proof -
  have m: "ms_per_day = 86400000" by (simp add: ms_per_day_def)
  show ?thesis
    unfolding calculateCostToGrow_def select_cost_entries_def Let_def rate_value
      daysActive_days [OF assms(3)] m
    using assms(1,2) by simp
qed

text \<open>
  C4. The rate per light and day is the double product \<open>0.15 * 1 * 18\<close>, which is
  2.6999999999999997 and not 2.70, and the products with the lights and the days are
  rounded again. Ten lights, started on day 100, the clock one millisecond into day 103
  (so 4 days active), no cost entries: the result is the double 107.99999999999999, not
  10 * 2.70 * 4 = 108.
\<close>

theorem cost_to_grow_rounding_counterexample:
  "calculateCostToGrow True empty_db 8899200001 (initial_state\<lparr>rooms := [demo_room]\<rparr>)
     ''batch-1'' ''room-7'' 100 = 7599824371187711 / 70368744177664
   \<and> calculateCostToGrow True empty_db 8899200001 (initial_state\<lparr>rooms := [demo_room]\<rparr>)
     ''batch-1'' ''room-7'' 100 \<noteq> 10 * (27 / 10) * 4"
proof -
  have "calculateCostToGrow True empty_db 8899200001 (initial_state\<lparr>rooms := [demo_room]\<rparr>)
     ''batch-1'' ''room-7'' 100 = 7599824371187711 / 70368744177664"
    by code_simp
  then show ?thesis by simp
qed

text \<open>
  C4, amended. With the cost-entry query answered, a room of \<open>N\<close> lights, start date
  \<open>S\<close> and the clock less than \<open>2^53\<close> ms from it, let \<open>D\<close> be the days from \<open>S\<close> to
  the clock, rounded up. The result is the double sum of the amounts of the entries of
  the batch or the room dated from \<open>S\<close> to today, added in the double arithmetic to
  the electricity cost \<open>(N * 2.6999999999999997) * D\<close>, each product rounded to a
  double. With no such entry the result is that electricity cost, and it differs from
  \<open>N * 2.70 * D\<close> by at most one part in \<open>10^15\<close>. When the query fails the result
  is 0.
\<close>

theorem cost_to_grow_rounded:
  "(find (\<lambda>r. r_id r = roomId) (rooms s) = Some rm \<and> r_lights rm = Some N
      \<and> \<bar>today - S * 86400000\<bar> < 2 ^ 53 \<longrightarrow>
      calculateCostToGrow True db today s batchId roomId S
        = js_add (foldl (\<lambda>sum entry. js_add sum (ce_amount entry)) 0
                    (filter (\<lambda>e. (ce_batch_id e = Some batchId \<or> ce_room_id e = Some roomId)
                                   \<and> S \<le> ce_date e \<and> ce_date e \<le> today div 86400000)
                            (cost_entries_tbl db)))
                 (js_mul (js_mul (of_int N) (6079859496950169 / 2251799813685248))
                         (of_int \<lceil>(of_int today :: rat) / 86400000 - of_int S\<rceil>)))
   \<and> (find (\<lambda>r. r_id r = roomId) (rooms s) = Some rm \<and> r_lights rm = Some N
        \<and> \<bar>today - S * 86400000\<bar> < 2 ^ 53
        \<and> filter (\<lambda>e. (ce_batch_id e = Some batchId \<or> ce_room_id e = Some roomId)
                       \<and> S \<le> ce_date e \<and> ce_date e \<le> today div 86400000)
                 (cost_entries_tbl db) = [] \<longrightarrow>
      calculateCostToGrow True db today s batchId roomId S
        = js_mul (js_mul (of_int N) (6079859496950169 / 2251799813685248))
                 (of_int \<lceil>(of_int today :: rat) / 86400000 - of_int S\<rceil>)
      \<and> \<bar>calculateCostToGrow True db today s batchId roomId S
           - of_int N * (27 / 10) * of_int \<lceil>(of_int today :: rat) / 86400000 - of_int S\<rceil>\<bar>
          \<le> \<bar>of_int N * (27 / 10) * of_int \<lceil>(of_int today :: rat) / 86400000 - of_int S\<rceil>\<bar>
             / 10 ^ 15)
   \<and> calculateCostToGrow False db today s batchId roomId S = 0"
proof (intro conjI impI)
  assume h: "find (\<lambda>r. r_id r = roomId) (rooms s) = Some rm \<and> r_lights rm = Some N
      \<and> \<bar>today - S * 86400000\<bar> < 2 ^ 53"
  then show "calculateCostToGrow True db today s batchId roomId S
        = js_add (foldl (\<lambda>sum entry. js_add sum (ce_amount entry)) 0
                    (filter (\<lambda>e. (ce_batch_id e = Some batchId \<or> ce_room_id e = Some roomId)
                                   \<and> S \<le> ce_date e \<and> ce_date e \<le> today div 86400000)
                            (cost_entries_tbl db)))
                 (js_mul (js_mul (of_int N) (6079859496950169 / 2251799813685248))
                         (of_int \<lceil>(of_int today :: rat) / 86400000 - of_int S\<rceil>))"
    by (intro cost_structure [where rm = rm]) simp_all
next
  assume h: "find (\<lambda>r. r_id r = roomId) (rooms s) = Some rm \<and> r_lights rm = Some N
        \<and> \<bar>today - S * 86400000\<bar> < 2 ^ 53
        \<and> filter (\<lambda>e. (ce_batch_id e = Some batchId \<or> ce_room_id e = Some roomId)
                       \<and> S \<le> ce_date e \<and> ce_date e \<le> today div 86400000)
                 (cost_entries_tbl db) = []"
  then have "calculateCostToGrow True db today s batchId roomId S
        = js_add (foldl (\<lambda>sum entry. js_add sum (ce_amount entry)) 0 [])
                 (js_mul (js_mul (of_int N) (6079859496950169 / 2251799813685248))
                         (of_int \<lceil>(of_int today :: rat) / 86400000 - of_int S\<rceil>))"
    using cost_structure [of roomId s rm N today S db batchId] by simp
  then show e: "calculateCostToGrow True db today s batchId roomId S
        = js_mul (js_mul (of_int N) (6079859496950169 / 2251799813685248))
                 (of_int \<lceil>(of_int today :: rat) / 86400000 - of_int S\<rceil>)"
    by (simp add: js_add_zero_mul)
  show "\<bar>calculateCostToGrow True db today s batchId roomId S
           - of_int N * (27 / 10) * of_int \<lceil>(of_int today :: rat) / 86400000 - of_int S\<rceil>\<bar>
          \<le> \<bar>of_int N * (27 / 10) * of_int \<lceil>(of_int today :: rat) / 86400000 - of_int S\<rceil>\<bar>
             / 10 ^ 15"
    unfolding e by (rule electricity_error)
next
  show "calculateCostToGrow False db today s batchId roomId S = 0"
    by (simp add: calculateCostToGrow_def select_cost_entries_def Let_def)
qed

text \<open>
  Ten lights, started on day 100, the clock one millisecond into day 103 (so 4 days
  active), one entry of 50: 158 with the entry (the sum rounds to it), the double
  107.99999999999999 without, which is within \<open>108 / 10^15\<close> of 108, and 0 on a failed
  query.
\<close>

theorem cost_to_grow_rounded_witness:
  "calculateCostToGrow True (empty_db\<lparr>cost_entries_tbl := [demo_cost]\<rparr>) 8899200001
        (initial_state\<lparr>rooms := [demo_room]\<rparr>) ''batch-1'' ''room-7'' 100 = 158
   \<and> calculateCostToGrow True empty_db 8899200001
        (initial_state\<lparr>rooms := [demo_room]\<rparr>) ''batch-1'' ''room-7'' 100
       = 7599824371187711 / 70368744177664
   \<and> \<bar>calculateCostToGrow True empty_db 8899200001
        (initial_state\<lparr>rooms := [demo_room]\<rparr>) ''batch-1'' ''room-7'' 100 - 108\<bar>
       \<le> 108 / 10 ^ 15
   \<and> calculateCostToGrow False (empty_db\<lparr>cost_entries_tbl := [demo_cost]\<rparr>) 8899200001
        (initial_state\<lparr>rooms := [demo_room]\<rparr>) ''batch-1'' ''room-7'' 100 = 0"
proof -
  let ?s = "initial_state\<lparr>rooms := [demo_room]\<rparr>"
  let ?db = "empty_db\<lparr>cost_entries_tbl := [demo_cost]\<rparr>"
  have r: "find (\<lambda>r. r_id r = ''room-7'') (rooms ?s) = Some demo_room \<and> r_lights demo_room = Some 10
           \<and> \<bar>8899200001 - 100 * 86400000\<bar> < (2 ^ 53 :: int)"
    by (simp add: initial_state_def demo_room_def)
  have c: "\<lceil>(of_int 8899200001 :: rat) / 86400000 - of_int 100\<rceil> = 4"
    by (simp add: ceiling_eq_iff)
  have f1: "filter (\<lambda>e. (ce_batch_id e = Some ''batch-1'' \<or> ce_room_id e = Some ''room-7'')
                       \<and> 100 \<le> ce_date e \<and> ce_date e \<le> 8899200001 div 86400000)
                 (cost_entries_tbl ?db) = [demo_cost]"
    by (simp add: empty_db_def demo_cost_def)
  have f0: "filter (\<lambda>e. (ce_batch_id e = Some ''batch-1'' \<or> ce_room_id e = Some ''room-7'')
                       \<and> 100 \<le> ce_date e \<and> ce_date e \<le> 8899200001 div 86400000)
                 (cost_entries_tbl empty_db) = []"
    by (simp add: empty_db_def)
  have v: "js_mul (js_mul (of_int 10) (6079859496950169 / 2251799813685248)) (of_int 4)
             = 7599824371187711 / 70368744177664"
    by code_simp
  have w: "js_add (js_add 0 50) (7599824371187711 / 70368744177664) = 158"
    by code_simp
  from cost_to_grow_rounded [of "''room-7''" ?s demo_room 10 8899200001 100 ?db "''batch-1''"] r
  have 1: "calculateCostToGrow True ?db 8899200001 ?s ''batch-1'' ''room-7'' 100 = 158"
    unfolding f1 c v by (simp add: demo_cost_def w)
  from cost_to_grow_rounded [of "''room-7''" ?s demo_room 10 8899200001 100 empty_db "''batch-1''"]
    r f0
  have 2: "calculateCostToGrow True empty_db 8899200001 ?s ''batch-1'' ''room-7'' 100
             = 7599824371187711 / 70368744177664"
    and 3: "\<bar>calculateCostToGrow True empty_db 8899200001 ?s ''batch-1'' ''room-7'' 100
              - of_int 10 * (27 / 10) * of_int 4\<bar> \<le> \<bar>of_int 10 * (27 / 10) * of_int 4\<bar> / 10 ^ 15"
    unfolding c v by blast+
  from cost_to_grow_rounded [of "''room-7''" ?s demo_room 10 8899200001 100 ?db "''batch-1''"]
  have 4: "calculateCostToGrow False ?db 8899200001 ?s ''batch-1'' ''room-7'' 100 = 0"
    by blast
  from 3 have b3: "\<bar>calculateCostToGrow True empty_db 8899200001 ?s ''batch-1'' ''room-7'' 100 - 108\<bar>
                    \<le> 108 / 10 ^ 15"
    by simp
  from 1 2 b3 4 show ?thesis by blast
qed

subsection \<open>Batch codes\<close>

lemma match_digits_run:
  assumes "\<forall>c\<in>set pre. \<not> is_digit c" and "ds \<noteq> []" and "\<forall>c\<in>set ds. is_digit c"
    and "rest = [] \<or> \<not> is_digit (hd rest)"
  shows "match_digits (pre @ ds @ rest) = Some ds"
proof -
  obtain d ds' where ds: "ds = d # ds'" using assms(2) by (cases ds) auto
  have d: "is_digit d" using assms(3) ds by simp
  have 1: "dropWhile (\<lambda>c. \<not> is_digit c) (pre @ ds @ rest) = ds @ rest"
    using assms(1) d ds by (simp add: dropWhile_append3)
  have 2: "takeWhile is_digit (ds @ rest) = ds"
  proof (cases rest)
    case Nil
    then show ?thesis using assms(3) by simp
  next
    case (Cons r rs)
    then have "\<not> is_digit r" using assms(4) by simp
    then show ?thesis using assms(3) Cons by (simp add: takeWhile_tail)
  qed
  show ?thesis using 1 2 ds by (simp add: match_digits_def)
qed

lemma match_digits_none:
  "\<forall>c\<in>set name. \<not> is_digit c \<Longrightarrow> match_digits name = None"
proof -
  assume "\<forall>c\<in>set name. \<not> is_digit c"
  then have d: "dropWhile (\<lambda>c. \<not> is_digit c) name = []" by simp
  show ?thesis unfolding match_digits_def d by simp
qed

lemma decimal_small: "n < 10 \<Longrightarrow> decimal n = [digit_char n]"
  by (simp add: decimal.simps)

lemma decimal_nonempty: "decimal n \<noteq> []"
  by (subst decimal.simps) simp

lemma decimal_large: "10 \<le> n \<Longrightarrow> 2 \<le> length (decimal n)"
proof -
  assume "10 \<le> n"
  then have "decimal n = decimal (n div 10) @ [digit_char (n mod 10)]"
    by (subst decimal.simps) simp
  moreover have "1 \<le> length (decimal (n div 10))"
    using decimal_nonempty [of "n div 10"] by (cases "decimal (n div 10)") auto
  ultimately show ?thesis by simp
qed

lemma padStart_two_digits: "padStart 2 (CHR ''0'') (decimal n) = two_digits n"
proof (cases "n < 10")
  case True
  then show ?thesis by (simp add: padStart_def two_digits_def decimal_small)
next
  case False
  then have "2 \<le> length (decimal n)" using decimal_large by simp
  then show ?thesis using False by (simp add: padStart_def two_digits_def)
qed

lemma like_prefix_iff: "like_prefix p code \<longleftrightarrow> (\<exists>rest. code = Some (p @ rest))"
proof (cases code)
  case None
  then show ?thesis by (simp add: like_prefix_def)
next
  case (Some c)
  have "take (length p) c = p \<longleftrightarrow> (\<exists>rest. c = p @ rest)"
    by (metis append_eq_conv_conj append_take_drop_id)
  then show ?thesis using Some by (simp add: like_prefix_def)
qed

lemma generateBatchCode_with:
  "match_digits roomName = m \<Longrightarrow> num = (case m of Some ds \<Rightarrow> ds | None \<Rightarrow> ''1'') \<Longrightarrow>
   generateBatchCode True db year roomName roomId
     = ''R'' @ num @ ''-'' @ decimal year @ ''-''
       @ two_digits (length (filter (\<lambda>b. b_room_id b = Some roomId
              \<and> (\<exists>rest. b_batch_code b = Some ((''R'' @ num @ ''-'' @ decimal year @ ''-'') @ rest)))
            (batches_tbl db)) + 1)
   \<and> generateBatchCode False db year roomName roomId = ''R'' @ num @ ''-'' @ decimal year @ ''-01''"
  by (simp add: generateBatchCode_def select_batch_codes_def Let_def padStart_two_digits
        like_prefix_iff)

text \<open>
  C5. When the room name is \<open>pre @ ds @ rest\<close> with no digit in \<open>pre\<close>, \<open>ds\<close> a
  non-empty run of digits and \<open>rest\<close> empty or starting with a non-digit (so \<open>ds\<close> is
  the first run of digits), the generated code is \<open>R\<close>, \<open>ds\<close>, \<open>-\<close>, the year,
  \<open>-\<close> and the sequence number in two digits, where the sequence number is one more
  than the number of batches of that room whose code starts with \<open>R ds - year -\<close>; a name
  without digits gives room code \<open>R1\<close>; and when the lookup of existing codes fails the
  sequence is \<open>01\<close>.
\<close>

theorem batch_code_format:
  "((\<forall>c\<in>set pre. \<not> is_digit c) \<and> ds \<noteq> [] \<and> (\<forall>c\<in>set ds. is_digit c)
      \<and> (rest = [] \<or> \<not> is_digit (hd rest)) \<longrightarrow>
      generateBatchCode True db year (pre @ ds @ rest) roomId
        = ''R'' @ ds @ ''-'' @ decimal year @ ''-''
          @ two_digits (length (filter (\<lambda>b. b_room_id b = Some roomId
                 \<and> (\<exists>tail. b_batch_code b = Some ((''R'' @ ds @ ''-'' @ decimal year @ ''-'') @ tail)))
               (batches_tbl db)) + 1)
      \<and> generateBatchCode False db year (pre @ ds @ rest) roomId
        = ''R'' @ ds @ ''-'' @ decimal year @ ''-01'')
   \<and> ((\<forall>c\<in>set roomName. \<not> is_digit c) \<longrightarrow>
      generateBatchCode True db year roomName roomId
        = ''R1-'' @ decimal year @ ''-''
          @ two_digits (length (filter (\<lambda>b. b_room_id b = Some roomId
                 \<and> (\<exists>tail. b_batch_code b = Some ((''R1-'' @ decimal year @ ''-'') @ tail)))
               (batches_tbl db)) + 1)
      \<and> generateBatchCode False db year roomName roomId = ''R1-'' @ decimal year @ ''-01'')"
proof (intro conjI impI)
  assume h: "(\<forall>c\<in>set pre. \<not> is_digit c) \<and> ds \<noteq> [] \<and> (\<forall>c\<in>set ds. is_digit c)
      \<and> (rest = [] \<or> \<not> is_digit (hd rest))"
  then have m: "match_digits (pre @ ds @ rest) = Some ds"
    using match_digits_run by blast
  show "generateBatchCode True db year (pre @ ds @ rest) roomId
        = ''R'' @ ds @ ''-'' @ decimal year @ ''-''
          @ two_digits (length (filter (\<lambda>b. b_room_id b = Some roomId
                 \<and> (\<exists>tail. b_batch_code b = Some ((''R'' @ ds @ ''-'' @ decimal year @ ''-'') @ tail)))
               (batches_tbl db)) + 1)"
    using generateBatchCode_with [OF m, of ds db year roomId] by simp
  show "generateBatchCode False db year (pre @ ds @ rest) roomId
        = ''R'' @ ds @ ''-'' @ decimal year @ ''-01''"
    using generateBatchCode_with [OF m, of ds db year roomId] by simp
next
  assume "\<forall>c\<in>set roomName. \<not> is_digit c"
  then have m: "match_digits roomName = None" by (rule match_digits_none)
  show "generateBatchCode True db year roomName roomId
        = ''R1-'' @ decimal year @ ''-''
          @ two_digits (length (filter (\<lambda>b. b_room_id b = Some roomId
                 \<and> (\<exists>tail. b_batch_code b = Some ((''R1-'' @ decimal year @ ''-'') @ tail)))
               (batches_tbl db)) + 1)"
    using generateBatchCode_with [OF m, of "''1''" db year roomId] by simp
  show "generateBatchCode False db year roomName roomId = ''R1-'' @ decimal year @ ''-01''"
    using generateBatchCode_with [OF m, of "''1''" db year roomId] by simp
qed

text \<open>
  "Flower Room 7" in 2024: \<open>R7-2024-01\<close> with no existing code, \<open>R7-2024-03\<close> with
  two existing codes of 2024 (and one of 2023, not counted), \<open>R7-2024-01\<close> when the
  lookup fails.
\<close>

theorem batch_code_format_witness:
  "generateBatchCode True empty_db 2024 ''Flower Room 7'' ''room-7'' = ''R7-2024-01''
   \<and> generateBatchCode True demo_db 2024 ''Flower Room 7'' ''room-7'' = ''R7-2024-03''
   \<and> generateBatchCode False demo_db 2024 ''Flower Room 7'' ''room-7'' = ''R7-2024-01''
   \<and> generateBatchCode True demo_db 2024 ''Veg'' ''room-7'' = ''R1-2024-01''"
proof -
  have h: "(\<forall>c\<in>set ''Flower Room ''. \<not> is_digit c) \<and> ''7'' \<noteq> [] \<and> (\<forall>c\<in>set ''7''. is_digit c)
             \<and> ([] = ([]::string) \<or> \<not> is_digit (hd []))"
    by (simp add: is_digit_def)
  have v: "\<forall>c\<in>set ''Veg''. \<not> is_digit c" by (simp add: is_digit_def)
  have y: "decimal 2024 = ''2024''" by code_simp
  have t: "two_digits (Suc 0) = ''01''" "two_digits (Suc (Suc (Suc 0))) = ''03''" "two_digits 3 = ''03''"
    by code_simp+
  show ?thesis
    using batch_code_format [of "''Flower Room ''" "''7''" "[]" empty_db 2024 "''room-7''" "''Veg''"]
          batch_code_format [of "''Flower Room ''" "''7''" "[]" demo_db 2024 "''room-7''" "''Veg''"]
          h v
    by (simp add: y t empty_db_def demo_db_def demo_room_def)
qed

subsection \<open>Deleting a room\<close>

lemma find_map_room:
  "find (\<lambda>r. r_id r = rid) (map (process_room db) rs)
     = map_option (process_room db) (find (\<lambda>r. r_id r = rid) rs)"
  by (induction rs) (simp_all add: process_room_def Let_def)

lemma has_current_batch_iff:
  "has_current_batch (process_room db rm)
     \<longleftrightarrow> (\<exists>b\<in>set (batches_tbl db). b_room_id b = Some (r_id rm) \<and> b_status b = Active)"
proof -
  have "has_current_batch (process_room db rm)
          \<longleftrightarrow> find (\<lambda>batch. b_status batch = Active)
                (filter (\<lambda>batch. b_room_id batch = Some (r_id rm)) (batches_tbl db)) \<noteq> None"
    by (simp add: process_room_def Let_def)
  also have "\<dots> \<longleftrightarrow> (\<exists>b\<in>set (batches_tbl db). b_room_id b = Some (r_id rm) \<and> b_status b = Active)"
    unfolding find_None_iff by auto
  finally show ?thesis .
qed

lemma find_room_id: "find (\<lambda>r. r_id r = rid) rs = Some rm \<Longrightarrow> r_id rm = rid"
  by (induction rs) (auto split: if_splits)

text \<open>
  C9. On the facility page as \<open>loadRooms\<close> has just loaded it from the store: for a
  room with a batch whose status is active, \<open>handleDeleteRoom\<close> sends no request and
  changes nothing; for a room of the store none of whose batches is active, it sends the
  delete request, and when the store accepts it the room is gone from the table. The
  check is the application's own: \<open>has_current_batch\<close>, computed by \<open>loadRooms\<close>
  from the room's batches.
\<close>

theorem room_delete_guard:
  "((\<exists>b\<in>set (batches_tbl db). b_room_id b = Some rid \<and> b_status b = Active) \<longrightarrow>
      handleDeleteRoom delete_ok reload_ok rid db (loadRooms True db fs)
        = ([], db, loadRooms True db fs))
   \<and> ((\<exists>r\<in>set (rooms_tbl db). r_id r = rid)
        \<and> (\<forall>b\<in>set (batches_tbl db). b_room_id b = Some rid \<longrightarrow> b_status b \<noteq> Active) \<longrightarrow>
      fst (handleDeleteRoom delete_ok reload_ok rid db (loadRooms True db fs)) = [DeleteRoom rid]
      \<and> (delete_ok \<longrightarrow>
            rooms_tbl (fst (snd (handleDeleteRoom delete_ok reload_ok rid db (loadRooms True db fs))))
              = filter (\<lambda>r. r_id r \<noteq> rid) (rooms_tbl db)))"
proof (intro conjI impI)
  assume a: "\<exists>b\<in>set (batches_tbl db). b_room_id b = Some rid \<and> b_status b = Active"
  show "handleDeleteRoom delete_ok reload_ok rid db (loadRooms True db fs)
          = ([], db, loadRooms True db fs)"
  proof (cases "find (\<lambda>r. r_id r = rid) (rooms_tbl db)")
    case None
    then show ?thesis
      by (simp add: handleDeleteRoom_def loadRooms_def find_map_room)
  next
    case (Some rm)
    then have "r_id rm = rid" by (rule find_room_id)
    then have "has_current_batch (process_room db rm)"
      using a by (simp add: has_current_batch_iff)
    then show ?thesis using Some
      by (simp add: handleDeleteRoom_def loadRooms_def find_map_room)
  qed
next
  assume h: "(\<exists>r\<in>set (rooms_tbl db). r_id r = rid)
        \<and> (\<forall>b\<in>set (batches_tbl db). b_room_id b = Some rid \<longrightarrow> b_status b \<noteq> Active)"
  then obtain rm where f: "find (\<lambda>r. r_id r = rid) (rooms_tbl db) = Some rm"
    by (cases "find (\<lambda>r. r_id r = rid) (rooms_tbl db)") (auto simp add: find_None_iff)
  then have "r_id rm = rid" by (rule find_room_id)
  then have n: "\<not> has_current_batch (process_room db rm)"
    using h by (auto simp add: has_current_batch_iff)
  show "fst (handleDeleteRoom delete_ok reload_ok rid db (loadRooms True db fs)) = [DeleteRoom rid]"
    using f n by (simp add: handleDeleteRoom_def loadRooms_def find_map_room Let_def)
  show "rooms_tbl (fst (snd (handleDeleteRoom delete_ok reload_ok rid db (loadRooms True db fs))))
              = filter (\<lambda>r. r_id r \<noteq> rid) (rooms_tbl db)" if "delete_ok"
    using f n that by (simp add: handleDeleteRoom_def loadRooms_def find_map_room Let_def)
qed

text \<open>
  Room 7 with an active batch: nothing is sent. Room 7 with only harvested and archived
  batches: the delete is sent and the table is left empty.
\<close>

theorem room_delete_guard_witness:
  "handleDeleteRoom True True ''room-7'' demo_db_active (loadRooms True demo_db_active initial_facility)
     = ([], demo_db_active, loadRooms True demo_db_active initial_facility)
   \<and> fst (handleDeleteRoom True True ''room-7'' demo_db (loadRooms True demo_db initial_facility))
       = [DeleteRoom ''room-7'']
   \<and> rooms_tbl (fst (snd (handleDeleteRoom True True ''room-7'' demo_db
                             (loadRooms True demo_db initial_facility)))) = []"
proof -
  have a: "\<exists>b\<in>set (batches_tbl demo_db_active). b_room_id b = Some ''room-7'' \<and> b_status b = Active"
    by (simp add: demo_db_active_def demo_db_def empty_db_def)
  have b: "(\<exists>r\<in>set (rooms_tbl demo_db). r_id r = ''room-7'')
        \<and> (\<forall>b\<in>set (batches_tbl demo_db). b_room_id b = Some ''room-7'' \<longrightarrow> b_status b \<noteq> Active)"
    by (simp add: demo_db_def empty_db_def demo_room_def)
  have c: "filter (\<lambda>r. r_id r \<noteq> ''room-7'') (rooms_tbl demo_db) = []"
    by (simp add: demo_db_def empty_db_def demo_room_def)
  show ?thesis
    using room_delete_guard [of demo_db_active "''room-7''" True True initial_facility] a
          room_delete_guard [of demo_db "''room-7''" True True initial_facility] b c
    by simp
qed

subsection \<open>The strain list stays free of repeats\<close>

lemma add_strain_list:
  "batchStrains (handleAddStrainToBatch parseInt parseFloat s) = batchStrains s
   \<or> ((\<forall>x\<in>set (batchStrains s). bs_strain_id x \<noteq> selectedStrain s)
        \<and> (\<exists>name. batchStrains (handleAddStrainToBatch parseInt parseFloat s)
            = batchStrains s @ [\<lparr> bs_strain_id = selectedStrain s,
                                   bs_strain_name = name,
                                   bs_lights_assigned = parseInt (lightsForStrain s),
                                   bs_percentage = parseFloat (percentageForStrain s) \<rparr>]))"
  by (auto simp add: handleAddStrainToBatch_def alert_def Let_def list_ex_iff
        split: option.splits)

lemma add_strain_duplicate:
  "\<exists>x\<in>set (batchStrains s). bs_strain_id x = selectedStrain s \<Longrightarrow>
   batchStrains (handleAddStrainToBatch parseInt parseFloat s) = batchStrains s"
  using add_strain_list [of parseInt parseFloat s] by auto

lemma add_strain_distinct:
  assumes "distinct (map bs_strain_id (batchStrains s))"
  shows "distinct (map bs_strain_id (batchStrains (handleAddStrainToBatch parseInt parseFloat s)))"
proof -
  from add_strain_list [of parseInt parseFloat s] show ?thesis
  proof (elim disjE conjE exE)
    assume "batchStrains (handleAddStrainToBatch parseInt parseFloat s) = batchStrains s"
    then show ?thesis using assms by simp
  next
    fix name
    assume n: "\<forall>x\<in>set (batchStrains s). bs_strain_id x \<noteq> selectedStrain s"
      and e: "batchStrains (handleAddStrainToBatch parseInt parseFloat s)
            = batchStrains s @ [\<lparr> bs_strain_id = selectedStrain s,
                                   bs_strain_name = name,
                                   bs_lights_assigned = parseInt (lightsForStrain s),
                                   bs_percentage = parseFloat (percentageForStrain s) \<rparr>]"
    have "selectedStrain s \<notin> bs_strain_id ` set (batchStrains s)" using n by auto
    then show ?thesis unfolding e using assms by simp
  qed
qed

lemma remove_strain_distinct:
  assumes "distinct (map bs_strain_id (batchStrains s))"
  shows "distinct (map bs_strain_id (batchStrains (removeStrainFromBatch index s)))"
proof -
  have "distinct (map (bs_strain_id \<circ> snd) (enumerate 0 (batchStrains s)))"
    using assms by (simp flip: map_map)
  then have "distinct (map (bs_strain_id \<circ> snd)
                (filter (\<lambda>(i, _). i \<noteq> index) (enumerate 0 (batchStrains s))))"
    by (rule distinct_map_filter)
  then show ?thesis by (simp add: removeStrainFromBatch_def)
qed

lemma strain_step_distinct:
  "distinct (map bs_strain_id (batchStrains s)) \<Longrightarrow>
   distinct (map bs_strain_id (batchStrains (strain_step parseInt parseFloat s e)))"
  by (cases e) (simp_all add: add_strain_distinct remove_strain_distinct)

lemma strain_run_distinct:
  "distinct (map bs_strain_id (batchStrains s)) \<Longrightarrow>
   distinct (map bs_strain_id (batchStrains (strain_run parseInt parseFloat events s)))"
  unfolding strain_run_def
  by (induction events arbitrary: s) (simp_all add: strain_step_distinct)

lemma validate_result:
  "validateBatchStrains s = (True, s)
   \<or> (\<exists>msg. validateBatchStrains s = (False, s\<lparr>alerts := alerts s @ [msg]\<rparr>))"
  by (auto simp add: validateBatchStrains_def alert_def Let_def split: option.splits)

lemma add_batch_rows:
  "batch_strains_tbl (fst (handleAddBatch replies year db s)) = batch_strains_tbl db
   \<or> (\<exists>newId. ar_batch_insert replies = Some newId
        \<and> batch_strains_tbl (fst (handleAddBatch replies year db s))
            = batch_strains_tbl db @ strainAssignments newId (batchStrains s))"
proof -
  from validate_result [of s] show ?thesis
  proof
    assume v: "validateBatchStrains s = (True, s)"
    show ?thesis
      by (cases "nb_start_date (newBatch s)"; cases "batchStrains s";
          cases "ar_batch_insert replies")
         (simp_all add: handleAddBatch_def v Let_def)
  next
    assume "\<exists>msg. validateBatchStrains s = (False, s\<lparr>alerts := alerts s @ [msg]\<rparr>)"
    then obtain msg where v: "validateBatchStrains s = (False, s\<lparr>alerts := alerts s @ [msg]\<rparr>)" ..
    show ?thesis
      by (cases "nb_start_date (newBatch s)") (simp_all add: handleAddBatch_def v)
  qed
qed

lemma strainAssignments_ids:
  "map bsa_strain_id (strainAssignments newId xs) = map bs_strain_id xs"
  by (simp add: strainAssignments_def comp_def)

text \<open>
  C10. Starting from the empty strain list, after any sequence of field edits, add-strain
  and remove-strain events the strain identifiers of the list are pairwise distinct;
  adding a strain that is already in the list leaves the list as it was; and whatever
  \<open>handleAddBatch\<close> then appends to the assignment table of the store has pairwise
  distinct strain identifiers, although \<open>validateBatchStrains\<close> does not look for
  repeats.
\<close>

theorem strain_list_distinct:
  "batchStrains s0 = [] \<longrightarrow>
     distinct (map bs_strain_id (batchStrains (strain_run parseInt parseFloat events s0)))
     \<and> ((\<exists>x\<in>set (batchStrains (strain_run parseInt parseFloat events s0)).
            bs_strain_id x = selectedStrain (strain_run parseInt parseFloat events s0)) \<longrightarrow>
          batchStrains (handleAddStrainToBatch parseInt parseFloat
                          (strain_run parseInt parseFloat events s0))
            = batchStrains (strain_run parseInt parseFloat events s0))
     \<and> (\<exists>new. batch_strains_tbl (fst (handleAddBatch replies year db
                                          (strain_run parseInt parseFloat events s0)))
                  = batch_strains_tbl db @ new
               \<and> distinct (map bsa_strain_id new))"
proof (intro impI conjI)
  assume e: "batchStrains s0 = []"
  let ?s = "strain_run parseInt parseFloat events s0"
  show d: "distinct (map bs_strain_id (batchStrains ?s))"
    using e by (intro strain_run_distinct) simp
  show "batchStrains (handleAddStrainToBatch parseInt parseFloat ?s) = batchStrains ?s"
    if "\<exists>x\<in>set (batchStrains ?s). bs_strain_id x = selectedStrain ?s"
    using that by (rule add_strain_duplicate)
  from add_batch_rows [of replies year db ?s]
  show "\<exists>new. batch_strains_tbl (fst (handleAddBatch replies year db ?s))
                  = batch_strains_tbl db @ new
               \<and> distinct (map bsa_strain_id new)"
  proof
    assume "batch_strains_tbl (fst (handleAddBatch replies year db ?s)) = batch_strains_tbl db"
    then show ?thesis by (intro exI [of _ "[]"]) simp
  next
    assume "\<exists>newId. ar_batch_insert replies = Some newId
        \<and> batch_strains_tbl (fst (handleAddBatch replies year db ?s))
            = batch_strains_tbl db @ strainAssignments newId (batchStrains ?s)"
    then obtain newId where
      "batch_strains_tbl (fst (handleAddBatch replies year db ?s))
            = batch_strains_tbl db @ strainAssignments newId (batchStrains ?s)" by blast
    then show ?thesis
      using d by (intro exI [of _ "strainAssignments newId (batchStrains ?s)"])
                 (simp add: strainAssignments_ids)
  qed
qed

text \<open>
  Add s1, try to add s1 again, add s2, remove at an index beyond the list: the list holds
  s1 and s2 once each.
\<close>

theorem strain_list_distinct_witness:
  "batchStrains demo_state = []
   \<and> map bs_strain_id (batchStrains (strain_run (\<lambda>_. 5) (\<lambda>_. 50)
         [EditFields ''s1'' ''5'' ''50'', AddStrain, EditFields ''s1'' ''5'' ''50'', AddStrain,
          EditFields ''s2'' ''5'' ''50'', AddStrain, RemoveStrain 7] demo_state)) = [''s1'', ''s2'']
   \<and> distinct (map bs_strain_id (batchStrains (strain_run (\<lambda>_. 5) (\<lambda>_. 50)
         [EditFields ''s1'' ''5'' ''50'', AddStrain, EditFields ''s1'' ''5'' ''50'', AddStrain,
          EditFields ''s2'' ''5'' ''50'', AddStrain, RemoveStrain 7] demo_state)))"
proof -
  have e: "batchStrains demo_state = []"
    by (simp add: demo_state_def initial_state_def)
  have m: "map bs_strain_id (batchStrains (strain_run (\<lambda>_. 5) (\<lambda>_. 50)
         [EditFields ''s1'' ''5'' ''50'', AddStrain, EditFields ''s1'' ''5'' ''50'', AddStrain,
          EditFields ''s2'' ''5'' ''50'', AddStrain, RemoveStrain 7] demo_state)) = [''s1'', ''s2'']"
    by (simp add: strain_run_def handleAddStrainToBatch_def removeStrainFromBatch_def
          demo_state_def initial_state_def empty_new_batch_def demo_room_def alert_def)
  have d: "distinct (map bs_strain_id (batchStrains (strain_run (\<lambda>_. 5) (\<lambda>_. 50)
         [EditFields ''s1'' ''5'' ''50'', AddStrain, EditFields ''s1'' ''5'' ''50'', AddStrain,
          EditFields ''s2'' ''5'' ''50'', AddStrain, RemoveStrain 7] demo_state)))"
    using strain_list_distinct [of demo_state "\<lambda>_. 5" "\<lambda>_. 50"
         "[EditFields ''s1'' ''5'' ''50'', AddStrain, EditFields ''s1'' ''5'' ''50'', AddStrain,
          EditFields ''s2'' ''5'' ''50'', AddStrain, RemoveStrain 7]"] e
    by blast
  from e m d show ?thesis by blast
qed

subsection \<open>Validation of the strain list\<close>

lemma foldl_lights:
  "foldl (\<lambda>sum strain. sum + bs_lights_assigned strain) a xs
     = a + sum_list (map bs_lights_assigned xs)"
  by (induction xs arbitrary: a) simp_all

lemma validate_accepts_iff:
  assumes "find (\<lambda>r. r_id r = nb_room_id (newBatch s)) (rooms s) = Some rm"
  shows "fst (validateBatchStrains s)
     \<longleftrightarrow> batchStrains s \<noteq> []
         \<and> sum_list (map bs_lights_assigned (batchStrains s))
             \<le> (case r_lights rm of None \<Rightarrow> 0 | Some n \<Rightarrow> n)
         \<and> foldl (\<lambda>sum strain. js_add sum (bs_percentage strain)) 0 (batchStrains s)
             \<le> fl (1001 / 10)"
  using assms
  by (auto simp add: validateBatchStrains_def Let_def foldl_lights)

text \<open>
  On every list the form can build from the empty one, and a room of known capacity
  \<open>C\<close>, the validator accepts exactly when the list is not empty, no strain repeats,
  the lights are within \<open>C\<close> and the percentages, added as doubles from left to right,
  are at most the double 100.1.
\<close>

lemma validation_of_built_lists:
  assumes "batchStrains s0 = []"
    and "s = strain_run parseInt parseFloat events s0"
    and "find (\<lambda>r. r_id r = nb_room_id (newBatch s)) (rooms s) = Some rm"
    and "r_lights rm = Some C"
  shows "fst (validateBatchStrains s)
     \<longleftrightarrow> batchStrains s \<noteq> []
         \<and> distinct (map bs_strain_id (batchStrains s))
         \<and> sum_list (map bs_lights_assigned (batchStrains s)) \<le> C
         \<and> foldl (\<lambda>sum strain. js_add sum (bs_percentage strain)) 0 (batchStrains s)
             \<le> fl (1001 / 10)"
proof -
  have "distinct (map bs_strain_id (batchStrains s0))" using assms(1) by simp
  then have d: "distinct (map bs_strain_id (batchStrains s))"
    unfolding assms(2) by (rule strain_run_distinct)
  show ?thesis
    unfolding validate_accepts_iff [OF assms(3)] using d assms(4) by simp
qed


text \<open>
  C8. The room without a known capacity is selected and the strain fields hold one strain
  with 5 lights and 50 percent. Adding the strain makes no check of the lights, since the
  capacity is unknown, and the list then holds the strain. The validator takes the
  unknown capacity for 0, finds 5 lights above it and rejects the list, although the
  list is not empty, no strain repeats and the percentages sum to 50.
\<close>

theorem null_capacity_rejected:
  "handleAddStrainToBatch demo_parseInt demo_parseFloat null_cap_form = null_cap_state
   \<and> find (\<lambda>r. r_id r = nb_room_id (newBatch null_cap_state)) (rooms null_cap_state)
       = Some null_room
   \<and> r_lights null_room = None
   \<and> batchStrains null_cap_state \<noteq> []
   \<and> distinct (map bs_strain_id (batchStrains null_cap_state))
   \<and> sum_list (map bs_lights_assigned (batchStrains null_cap_state)) = 5
   \<and> foldl (\<lambda>sum strain. js_add sum (bs_percentage strain)) 0 (batchStrains null_cap_state)
       = 50
   \<and> \<not> fst (validateBatchStrains null_cap_state)
   \<and> alerts (snd (validateBatchStrains null_cap_state))
       = [''Total lights assigned (5) cannot exceed room capacity (null)'']"
proof -
  have 1: "handleAddStrainToBatch demo_parseInt demo_parseFloat null_cap_form = null_cap_state"
    by (simp add: handleAddStrainToBatch_def null_cap_form_def null_cap_state_def
          initial_state_def empty_new_batch_def null_room_def demo_room_def demo_parseInt_def
          demo_parseFloat_def)
  have 2: "find (\<lambda>r. r_id r = nb_room_id (newBatch null_cap_state)) (rooms null_cap_state)
             = Some null_room"
    by (simp add: null_cap_state_def null_cap_form_def initial_state_def empty_new_batch_def
          null_room_def demo_room_def)
  have 3: "r_lights null_room = None" by (simp add: null_room_def)
  have b: "batchStrains null_cap_state =
             [\<lparr> bs_strain_id = ''s1'', bs_strain_name = ''Kush'',
                bs_lights_assigned = 5, bs_percentage = 50 \<rparr>]"
    by (simp add: null_cap_state_def)
  have 4: "batchStrains null_cap_state \<noteq> []" unfolding b by simp
  have 5: "distinct (map bs_strain_id (batchStrains null_cap_state))" unfolding b by simp
  have 6: "sum_list (map bs_lights_assigned (batchStrains null_cap_state)) = 5" unfolding b by simp
  have v: "js_add 0 50 = 50" by code_simp
  have 7: "foldl (\<lambda>sum strain. js_add sum (bs_percentage strain)) 0 (batchStrains null_cap_state)
             = 50"
    unfolding b by (simp only: foldl_Cons foldl_Nil batch_strain.simps v)
  have 8: "\<not> fst (validateBatchStrains null_cap_state)"
    unfolding validate_accepts_iff [OF 2] 3 6 by simp
  have n: "number_text 5 = ''5''" by code_simp
  have 9: "alerts (snd (validateBatchStrains null_cap_state))
             = [''Total lights assigned (5) cannot exceed room capacity (null)'']"
    unfolding validateBatchStrains_def Let_def 2 b
    by (simp add: null_room_def lights_text_def n alert_def null_cap_state_def
          null_cap_form_def initial_state_def)
  from 1 2 3 4 5 6 7 8 9 show ?thesis by (intro conjI)
qed

subsection \<open>Saving harvest data replaces the earlier rows\<close>

lemma summary_state:
  "snd (calculateHarvestSummary ok db today s)
     = s\<lparr>harvestSummary := Some (fst (calculateHarvestSummary ok db today s))\<rparr>"
  by (simp add: calculateHarvestSummary_def Let_def)

lemma save_batches_tbl:
  "batches_tbl (fst (handleSaveHarvestData replies today db s))
     = (case selectedBatchForHarvest s of
          None \<Rightarrow> batches_tbl db
        | Some sel \<Rightarrow>
            if sr_summary_insert replies \<noteq> None \<and> sr_details_ok replies \<and> sr_status_ok replies
            then map (\<lambda>b. if b_id b = b_id sel then b\<lparr>b_status := Harvested\<rparr> else b)
                     (batches_tbl db)
            else batches_tbl db)"
  by (cases "calculateHarvestSummary (sr_costs_ok replies) db today s")
     (auto simp add: handleSaveHarvestData_def Let_def update_status_def
        split: option.splits list.splits)


lemma summary_harvestData:
  "harvestData (snd (calculateHarvestSummary ok db today s)) = harvestData s"
  by (simp add: summary_state)

lemma save_harvest_tables:
  assumes "selectedBatchForHarvest s = Some sel"
    and "sr_fetch_ok replies" and "sr_delete_details_ok replies"
    and "sr_delete_summaries_ok replies"
    and "sr_summary_insert replies = Some newId" and "sr_details_ok replies"
  shows "\<exists>row. hs_id row = newId \<and> hs_batch_id row = b_id sel
           \<and> harvest_summaries_tbl (fst (handleSaveHarvestData replies today db s))
               = filter (\<lambda>x. hs_batch_id x \<noteq> b_id sel) (harvest_summaries_tbl db) @ [row]"
    and "harvest_details_tbl (fst (handleSaveHarvestData replies today db s))
           = filter (\<lambda>d. hdr_harvest_summary_id d \<notin> hs_id ` set (summaries_of db (b_id sel)))
                    (harvest_details_tbl db)
             @ harvestDetails newId (harvestData s)"
proof -
  obtain sm s1 where c: "calculateHarvestSummary (sr_costs_ok replies) db today s = (sm, s1)"
    by (cases "calculateHarvestSummary (sr_costs_ok replies) db today s")
  have h: "harvestData s1 = harvestData s"
    using summary_harvestData [of "sr_costs_ok replies" db today s] c by simp
  show "\<exists>row. hs_id row = newId \<and> hs_batch_id row = b_id sel
           \<and> harvest_summaries_tbl (fst (handleSaveHarvestData replies today db s))
               = filter (\<lambda>x. hs_batch_id x \<noteq> b_id sel) (harvest_summaries_tbl db) @ [row]"
    using assms c
    by (cases "sr_status_ok replies";
        cases "map hs_id (filter (\<lambda>r. hs_batch_id r = b_id sel) (harvest_summaries_tbl db))")
       (simp_all add: handleSaveHarvestData_def Let_def update_status_def)
  show "harvest_details_tbl (fst (handleSaveHarvestData replies today db s))
           = filter (\<lambda>d. hdr_harvest_summary_id d \<notin> hs_id ` set (summaries_of db (b_id sel)))
                    (harvest_details_tbl db)
             @ harvestDetails newId (harvestData s)"
  proof (cases "map hs_id (filter (\<lambda>r. hs_batch_id r = b_id sel) (harvest_summaries_tbl db))")
    case Nil
    then have "hs_id ` set (summaries_of db (b_id sel)) = {}"
      by (simp add: summaries_of_def)
    then show ?thesis using assms c h Nil
      by (cases "sr_status_ok replies")
         (simp_all add: handleSaveHarvestData_def Let_def update_status_def)
  next
    case (Cons i rest)
    have "hs_id ` set (summaries_of db (b_id sel))
            = set (map hs_id (filter (\<lambda>r. hs_batch_id r = b_id sel) (harvest_summaries_tbl db)))"
      unfolding summaries_of_def by (rule set_map [symmetric])
    then have "hs_id ` set (summaries_of db (b_id sel)) = set (i # rest)"
      unfolding Cons .
    then show ?thesis using assms c h Cons
      by (cases "sr_status_ok replies")
         (simp_all add: handleSaveHarvestData_def Let_def update_status_def)
  qed
qed

lemma harvestDetails_ids:
  "filter (\<lambda>d. hdr_harvest_summary_id d = newId) (harvestDetails newId hds)
     = harvestDetails newId hds"
  by (simp add: harvestDetails_def)

lemma save_replaces:
  assumes "selectedBatchForHarvest s = Some sel"
    and "sr_fetch_ok replies" and "sr_delete_details_ok replies"
    and "sr_delete_summaries_ok replies"
    and "sr_summary_insert replies = Some newId" and "sr_details_ok replies"
    and "new_summary_id db newId"
  shows "map hs_id (summaries_of (fst (handleSaveHarvestData replies today db s)) (b_id sel))
           = [newId]"
    and "details_of (fst (handleSaveHarvestData replies today db s)) (b_id sel)
           = harvestDetails newId (harvestData s)"
proof -
  let ?db' = "fst (handleSaveHarvestData replies today db s)"
  from save_harvest_tables(1) [OF assms(1-6), of today db]
  obtain row where r: "hs_id row = newId" "hs_batch_id row = b_id sel"
    and t: "harvest_summaries_tbl ?db'
              = filter (\<lambda>x. hs_batch_id x \<noteq> b_id sel) (harvest_summaries_tbl db) @ [row]"
    by blast
  have s: "summaries_of ?db' (b_id sel) = [row]"
    using r by (simp add: summaries_of_def t)
  show "map hs_id (summaries_of ?db' (b_id sel)) = [newId]"
    using s r by simp
  have old: "filter (\<lambda>d. hdr_harvest_summary_id d = newId) (harvest_details_tbl db) = []"
    using assms(7) by (auto simp add: new_summary_id_def filter_empty_conv)
  have "details_of ?db' (b_id sel)
          = filter (\<lambda>d. hdr_harvest_summary_id d = newId) (harvest_details_tbl ?db')"
    using r by (simp add: details_of_def s)
  also have "\<dots> = filter (\<lambda>d. hdr_harvest_summary_id d \<notin> hs_id ` set (summaries_of db (b_id sel)))
                      (filter (\<lambda>d. hdr_harvest_summary_id d = newId) (harvest_details_tbl db))
                   @ harvestDetails newId (harvestData s)"
    unfolding save_harvest_tables(2) [OF assms(1-6)]
    by (simp add: harvestDetails_ids conj_commute)
  also have "\<dots> = harvestDetails newId (harvestData s)"
    by (simp add: old)
  finally show "details_of ?db' (b_id sel) = harvestDetails newId (harvestData s)" .
qed


lemma save_twice_tables:
  assumes "selectedBatchForHarvest s = Some sel" and "selectedBatchForHarvest s' = Some sel"
    and "sr_fetch_ok r1" and "sr_delete_details_ok r1" and "sr_delete_summaries_ok r1"
    and "sr_summary_insert r1 = Some id1" and "sr_details_ok r1"
    and "sr_fetch_ok r2" and "sr_delete_details_ok r2" and "sr_delete_summaries_ok r2"
    and "sr_summary_insert r2 = Some id2" and "sr_details_ok r2"
    and "new_summary_id db id1"
  shows "\<exists>row. hs_id row = id2 \<and> hs_batch_id row = b_id sel
           \<and> harvest_summaries_tbl (fst (handleSaveHarvestData r2 t2
                  (fst (handleSaveHarvestData r1 t1 db s)) s'))
               = filter (\<lambda>x. hs_batch_id x \<noteq> b_id sel) (harvest_summaries_tbl db) @ [row]"
    and "harvest_details_tbl (fst (handleSaveHarvestData r2 t2
                  (fst (handleSaveHarvestData r1 t1 db s)) s'))
           = filter (\<lambda>d. hdr_harvest_summary_id d \<notin> hs_id ` set (summaries_of db (b_id sel)))
                    (harvest_details_tbl db)
             @ harvestDetails id2 (harvestData s')"
proof -
  let ?db1 = "fst (handleSaveHarvestData r1 t1 db s)"
  let ?db2 = "fst (handleSaveHarvestData r2 t2 ?db1 s')"
  let ?old = "hs_id ` set (summaries_of db (b_id sel))"
  from save_harvest_tables(1) [OF assms(1) assms(3-7), of t1 db]
  obtain row1 where r1: "hs_id row1 = id1" "hs_batch_id row1 = b_id sel"
    and t1: "harvest_summaries_tbl ?db1
               = filter (\<lambda>x. hs_batch_id x \<noteq> b_id sel) (harvest_summaries_tbl db) @ [row1]"
    by blast
  have d1: "harvest_details_tbl ?db1
              = filter (\<lambda>d. hdr_harvest_summary_id d \<notin> ?old) (harvest_details_tbl db)
                @ harvestDetails id1 (harvestData s)"
    by (rule save_harvest_tables(2) [OF assms(1) assms(3-7)])
  from save_harvest_tables(1) [OF assms(2) assms(8-12), of t2 ?db1]
  obtain row2 where r2: "hs_id row2 = id2" "hs_batch_id row2 = b_id sel"
    and t2: "harvest_summaries_tbl ?db2
               = filter (\<lambda>x. hs_batch_id x \<noteq> b_id sel) (harvest_summaries_tbl ?db1) @ [row2]"
    by blast
  have "harvest_summaries_tbl ?db2
          = filter (\<lambda>x. hs_batch_id x \<noteq> b_id sel) (harvest_summaries_tbl db) @ [row2]"
    unfolding t2 t1 using r1 by simp
  with r2 show "\<exists>row. hs_id row = id2 \<and> hs_batch_id row = b_id sel
           \<and> harvest_summaries_tbl ?db2
               = filter (\<lambda>x. hs_batch_id x \<noteq> b_id sel) (harvest_summaries_tbl db) @ [row]"
    by blast
  have s1: "hs_id ` set (summaries_of ?db1 (b_id sel)) = {id1}"
    using r1 by (simp add: summaries_of_def t1)
  have keep: "filter (\<lambda>d. hdr_harvest_summary_id d \<noteq> id1) (harvest_details_tbl db)
                = harvest_details_tbl db"
    using assms(13) by (auto simp add: new_summary_id_def filter_id_conv)
  have "harvest_details_tbl ?db2
          = filter (\<lambda>d. hdr_harvest_summary_id d \<notin> {id1}) (harvest_details_tbl ?db1)
            @ harvestDetails id2 (harvestData s')"
    using save_harvest_tables(2) [OF assms(2) assms(8-12), of t2 ?db1] unfolding s1 .
  also have "filter (\<lambda>d. hdr_harvest_summary_id d \<notin> {id1}) (harvest_details_tbl ?db1)
               = filter (\<lambda>d. hdr_harvest_summary_id d \<notin> ?old)
                   (filter (\<lambda>d. hdr_harvest_summary_id d \<noteq> id1) (harvest_details_tbl db))"
    unfolding d1 by (simp add: harvestDetails_def conj_commute)
  finally show "harvest_details_tbl ?db2
           = filter (\<lambda>d. hdr_harvest_summary_id d \<notin> ?old) (harvest_details_tbl db)
             @ harvestDetails id2 (harvestData s')"
    unfolding keep .
qed

text \<open>
  C3. Two saves for the same batch, each with every call to the store answered without
  error and each summary given an identifier new to the harvest tables. After the first
  save, and again after the second, the store holds exactly one summary row for the batch
  (the one just inserted) and the detail rows that refer to the batch's summaries are
  exactly the rows just inserted, one per harvest entry with that entry's strain.
  On the tables themselves: each save leaves the summary table as it was before the
  first save without the rows of the batch, followed by the new row, and the detail table
  as it was before the first save without the rows that referred to a summary of the
  batch, followed by the new detail rows. So after the second save no detail row refers
  to the summary of the first save, and the detail rows of the second summary are as
  many as the harvest entries.
\<close>

theorem harvest_resave_replaces:
  "selectedBatchForHarvest s = Some sel \<and> selectedBatchForHarvest s' = Some sel
     \<and> sr_fetch_ok r1 \<and> sr_delete_details_ok r1 \<and> sr_delete_summaries_ok r1
     \<and> sr_summary_insert r1 = Some id1 \<and> sr_details_ok r1
     \<and> sr_fetch_ok r2 \<and> sr_delete_details_ok r2 \<and> sr_delete_summaries_ok r2
     \<and> sr_summary_insert r2 = Some id2 \<and> sr_details_ok r2
     \<and> new_summary_id db id1
     \<and> new_summary_id (fst (handleSaveHarvestData r1 t1 db s)) id2 \<longrightarrow>
     map hs_id (summaries_of (fst (handleSaveHarvestData r1 t1 db s)) (b_id sel)) = [id1]
     \<and> details_of (fst (handleSaveHarvestData r1 t1 db s)) (b_id sel)
         = harvestDetails id1 (harvestData s)
     \<and> map hs_id (summaries_of (fst (handleSaveHarvestData r2 t2
                       (fst (handleSaveHarvestData r1 t1 db s)) s')) (b_id sel)) = [id2]
     \<and> details_of (fst (handleSaveHarvestData r2 t2
                       (fst (handleSaveHarvestData r1 t1 db s)) s')) (b_id sel)
         = harvestDetails id2 (harvestData s')
     \<and> map hdr_strain_id (details_of (fst (handleSaveHarvestData r2 t2
                       (fst (handleSaveHarvestData r1 t1 db s)) s')) (b_id sel))
         = map hd_strain_id (harvestData s')
     \<and> (\<exists>row. hs_id row = id1 \<and> hs_batch_id row = b_id sel
           \<and> harvest_summaries_tbl (fst (handleSaveHarvestData r1 t1 db s))
               = filter (\<lambda>x. hs_batch_id x \<noteq> b_id sel) (harvest_summaries_tbl db) @ [row])
     \<and> harvest_details_tbl (fst (handleSaveHarvestData r1 t1 db s))
         = filter (\<lambda>d. hdr_harvest_summary_id d \<notin> hs_id ` set (summaries_of db (b_id sel)))
                  (harvest_details_tbl db)
           @ harvestDetails id1 (harvestData s)
     \<and> (\<exists>row. hs_id row = id2 \<and> hs_batch_id row = b_id sel
           \<and> harvest_summaries_tbl (fst (handleSaveHarvestData r2 t2
                  (fst (handleSaveHarvestData r1 t1 db s)) s'))
               = filter (\<lambda>x. hs_batch_id x \<noteq> b_id sel) (harvest_summaries_tbl db) @ [row])
     \<and> harvest_details_tbl (fst (handleSaveHarvestData r2 t2
                  (fst (handleSaveHarvestData r1 t1 db s)) s'))
         = filter (\<lambda>d. hdr_harvest_summary_id d \<notin> hs_id ` set (summaries_of db (b_id sel)))
                  (harvest_details_tbl db)
           @ harvestDetails id2 (harvestData s')
     \<and> filter (\<lambda>d. hdr_harvest_summary_id d = id1)
          (harvest_details_tbl (fst (handleSaveHarvestData r2 t2
                  (fst (handleSaveHarvestData r1 t1 db s)) s'))) = []
     \<and> length (filter (\<lambda>d. hdr_harvest_summary_id d = id2)
          (harvest_details_tbl (fst (handleSaveHarvestData r2 t2
                  (fst (handleSaveHarvestData r1 t1 db s)) s')))) = length (harvestData s')"
proof (intro impI)
  assume h: "selectedBatchForHarvest s = Some sel \<and> selectedBatchForHarvest s' = Some sel
     \<and> sr_fetch_ok r1 \<and> sr_delete_details_ok r1 \<and> sr_delete_summaries_ok r1
     \<and> sr_summary_insert r1 = Some id1 \<and> sr_details_ok r1
     \<and> sr_fetch_ok r2 \<and> sr_delete_details_ok r2 \<and> sr_delete_summaries_ok r2
     \<and> sr_summary_insert r2 = Some id2 \<and> sr_details_ok r2
     \<and> new_summary_id db id1
     \<and> new_summary_id (fst (handleSaveHarvestData r1 t1 db s)) id2"
  let ?db1 = "fst (handleSaveHarvestData r1 t1 db s)"
  let ?db2 = "fst (handleSaveHarvestData r2 t2 ?db1 s')"
  let ?old = "hs_id ` set (summaries_of db (b_id sel))"
  have 1: "map hs_id (summaries_of ?db1 (b_id sel)) = [id1]"
    using h by (intro save_replaces(1)) simp_all
  have 2: "details_of ?db1 (b_id sel) = harvestDetails id1 (harvestData s)"
    using h by (intro save_replaces(2)) simp_all
  have 3: "map hs_id (summaries_of ?db2 (b_id sel)) = [id2]"
    using h by (intro save_replaces(1)) simp_all
  have 4: "details_of ?db2 (b_id sel) = harvestDetails id2 (harvestData s')"
    using h by (intro save_replaces(2)) simp_all
  have 5: "map hdr_strain_id (details_of ?db2 (b_id sel)) = map hd_strain_id (harvestData s')"
    unfolding 4 by (simp add: harvestDetails_def comp_def)
  have 6: "\<exists>row. hs_id row = id1 \<and> hs_batch_id row = b_id sel
           \<and> harvest_summaries_tbl ?db1
               = filter (\<lambda>x. hs_batch_id x \<noteq> b_id sel) (harvest_summaries_tbl db) @ [row]"
    using h by (intro save_harvest_tables(1)) simp_all
  have 7: "harvest_details_tbl ?db1
             = filter (\<lambda>d. hdr_harvest_summary_id d \<notin> ?old) (harvest_details_tbl db)
               @ harvestDetails id1 (harvestData s)"
    using h by (intro save_harvest_tables(2)) simp_all
  have 8: "\<exists>row. hs_id row = id2 \<and> hs_batch_id row = b_id sel
           \<and> harvest_summaries_tbl ?db2
               = filter (\<lambda>x. hs_batch_id x \<noteq> b_id sel) (harvest_summaries_tbl db) @ [row]"
    using h by (intro save_twice_tables(1) [where ?r1.0 = r1 and ?id1.0 = id1]) simp_all
  have 9: "harvest_details_tbl ?db2
             = filter (\<lambda>d. hdr_harvest_summary_id d \<notin> ?old) (harvest_details_tbl db)
               @ harvestDetails id2 (harvestData s')"
    using h by (intro save_twice_tables(2) [where ?r1.0 = r1 and ?id1.0 = id1]) simp_all
  have ne: "id1 \<noteq> id2"
  proof -
    have "id1 \<in> set (map hs_id (summaries_of ?db1 (b_id sel)))"
      unfolding 1 by simp
    then have "id1 \<in> hs_id ` set (harvest_summaries_tbl ?db1)"
      by (auto simp add: summaries_of_def)
    moreover have "id2 \<notin> hs_id ` set (harvest_summaries_tbl ?db1)"
      using h by (simp add: new_summary_id_def)
    ultimately show ?thesis by blast
  qed
  have n1: "filter (\<lambda>d. hdr_harvest_summary_id d = id1) (harvest_details_tbl db) = []"
    using h by (auto simp add: new_summary_id_def filter_empty_conv)
  have n2: "filter (\<lambda>d. hdr_harvest_summary_id d = id2) (harvest_details_tbl ?db1) = []"
    using h by (auto simp add: new_summary_id_def filter_empty_conv)
  have n2': "filter (\<lambda>d. hdr_harvest_summary_id d = id2)
               (filter (\<lambda>d. hdr_harvest_summary_id d \<notin> ?old) (harvest_details_tbl db)) = []"
    using n2 unfolding 7 by simp
  have c: "\<And>P Q xs. filter P (filter Q xs) = filter Q (filter P xs)"
    by (simp add: conj_commute)
  have 10: "filter (\<lambda>d. hdr_harvest_summary_id d = id1) (harvest_details_tbl ?db2) = []"
    unfolding 9 filter_append c [of "\<lambda>d. hdr_harvest_summary_id d = id1"] n1
    using ne by (simp add: harvestDetails_def)
  have 11: "length (filter (\<lambda>d. hdr_harvest_summary_id d = id2) (harvest_details_tbl ?db2))
              = length (harvestData s')"
    unfolding 9 filter_append n2' by (simp add: harvestDetails_def)
  from 1 2 3 4 5 6 7 8 9 10 11
  show "map hs_id (summaries_of ?db1 (b_id sel)) = [id1]
     \<and> details_of ?db1 (b_id sel) = harvestDetails id1 (harvestData s)
     \<and> map hs_id (summaries_of ?db2 (b_id sel)) = [id2]
     \<and> details_of ?db2 (b_id sel) = harvestDetails id2 (harvestData s')
     \<and> map hdr_strain_id (details_of ?db2 (b_id sel)) = map hd_strain_id (harvestData s')
     \<and> (\<exists>row. hs_id row = id1 \<and> hs_batch_id row = b_id sel
           \<and> harvest_summaries_tbl ?db1
               = filter (\<lambda>x. hs_batch_id x \<noteq> b_id sel) (harvest_summaries_tbl db) @ [row])
     \<and> harvest_details_tbl ?db1
         = filter (\<lambda>d. hdr_harvest_summary_id d \<notin> ?old) (harvest_details_tbl db)
           @ harvestDetails id1 (harvestData s)
     \<and> (\<exists>row. hs_id row = id2 \<and> hs_batch_id row = b_id sel
           \<and> harvest_summaries_tbl ?db2
               = filter (\<lambda>x. hs_batch_id x \<noteq> b_id sel) (harvest_summaries_tbl db) @ [row])
     \<and> harvest_details_tbl ?db2
         = filter (\<lambda>d. hdr_harvest_summary_id d \<notin> ?old) (harvest_details_tbl db)
           @ harvestDetails id2 (harvestData s')
     \<and> filter (\<lambda>d. hdr_harvest_summary_id d = id1) (harvest_details_tbl ?db2) = []
     \<and> length (filter (\<lambda>d. hdr_harvest_summary_id d = id2) (harvest_details_tbl ?db2))
         = length (harvestData s')"
    by (intro conjI)
qed

text \<open>
  The store holds a summary \<open>hs-0\<close> of batch 1 with a detail row and a summary
  \<open>hs-9\<close> of batch 2 with a detail row. Batch 1 is saved with one harvest entry for
  strain s1 as summary \<open>hs-1\<close>, then again as \<open>hs-2\<close>. The rows of batch 2 stay; of
  batch 1 the tables hold only \<open>hs-1\<close> and its one detail row after the first save, and
  only \<open>hs-2\<close> and its one detail row after the second.
\<close>

theorem harvest_resave_replaces_witness:
  "map (\<lambda>r. (hs_id r, hs_batch_id r)) (harvest_summaries_tbl resave_db)
     = [(''hs-0'', ''batch-1''), (''hs-9'', ''batch-2'')]
   \<and> map (\<lambda>d. (hdr_harvest_summary_id d, hdr_strain_id d)) (harvest_details_tbl resave_db)
     = [(''hs-0'', ''s1''), (''hs-9'', ''s2'')]
   \<and> map (\<lambda>r. (hs_id r, hs_batch_id r)) (harvest_summaries_tbl
       (fst (handleSaveHarvestData (save_ok ''hs-1'') 0 resave_db harvest_state)))
     = [(''hs-9'', ''batch-2''), (''hs-1'', ''batch-1'')]
   \<and> map (\<lambda>d. (hdr_harvest_summary_id d, hdr_strain_id d)) (harvest_details_tbl
       (fst (handleSaveHarvestData (save_ok ''hs-1'') 0 resave_db harvest_state)))
     = [(''hs-9'', ''s2''), (''hs-1'', ''s1'')]
   \<and> map (\<lambda>r. (hs_id r, hs_batch_id r)) (harvest_summaries_tbl
       (fst (handleSaveHarvestData (save_ok ''hs-2'') 0
               (fst (handleSaveHarvestData (save_ok ''hs-1'') 0 resave_db harvest_state))
               harvest_state)))
     = [(''hs-9'', ''batch-2''), (''hs-2'', ''batch-1'')]
   \<and> map (\<lambda>d. (hdr_harvest_summary_id d, hdr_strain_id d)) (harvest_details_tbl
       (fst (handleSaveHarvestData (save_ok ''hs-2'') 0
               (fst (handleSaveHarvestData (save_ok ''hs-1'') 0 resave_db harvest_state))
               harvest_state)))
     = [(''hs-9'', ''s2''), (''hs-2'', ''s1'')]
   \<and> map hs_id (summaries_of
       (fst (handleSaveHarvestData (save_ok ''hs-2'') 0
               (fst (handleSaveHarvestData (save_ok ''hs-1'') 0 resave_db harvest_state))
               harvest_state)) ''batch-1'') = [''hs-2'']
   \<and> map hdr_strain_id (details_of
       (fst (handleSaveHarvestData (save_ok ''hs-2'') 0
               (fst (handleSaveHarvestData (save_ok ''hs-1'') 0 resave_db harvest_state))
               harvest_state)) ''batch-1'') = [''s1'']"
proof -
  let ?db1 = "fst (handleSaveHarvestData (save_ok ''hs-1'') 0 resave_db harvest_state)"
  let ?db2 = "fst (handleSaveHarvestData (save_ok ''hs-2'') 0 ?db1 harvest_state)"
  have sel: "selectedBatchForHarvest harvest_state = Some demo_batch"
    by (simp add: harvest_state_def initial_state_def)
  have bid: "b_id demo_batch = ''batch-1''" by (simp add: demo_batch_def)
  have hd: "harvestData harvest_state = [demo_harvest]"
    by (simp add: harvest_state_def initial_state_def)
  have hid: "hd_strain_id demo_harvest = ''s1''" by (simp add: demo_harvest_def)
  have ok1: "sr_fetch_ok (save_ok ''hs-1'') \<and> sr_delete_details_ok (save_ok ''hs-1'')
             \<and> sr_delete_summaries_ok (save_ok ''hs-1'')
             \<and> sr_summary_insert (save_ok ''hs-1'') = Some ''hs-1''
             \<and> sr_details_ok (save_ok ''hs-1'')"
    by (simp add: save_ok_def)
  have ok2: "sr_fetch_ok (save_ok ''hs-2'') \<and> sr_delete_details_ok (save_ok ''hs-2'')
             \<and> sr_delete_summaries_ok (save_ok ''hs-2'')
             \<and> sr_summary_insert (save_ok ''hs-2'') = Some ''hs-2''
             \<and> sr_details_ok (save_ok ''hs-2'')"
    by (simp add: save_ok_def)
  have st: "map (\<lambda>r. (hs_id r, hs_batch_id r)) (harvest_summaries_tbl resave_db)
              = [(''hs-0'', ''batch-1''), (''hs-9'', ''batch-2'')]"
    by (simp add: resave_db_def)
  have dt: "map (\<lambda>d. (hdr_harvest_summary_id d, hdr_strain_id d)) (harvest_details_tbl resave_db)
              = [(''hs-0'', ''s1''), (''hs-9'', ''s2'')]"
    by (simp add: resave_db_def)
  have n1: "new_summary_id resave_db ''hs-1''"
    by (simp add: new_summary_id_def resave_db_def)
  have old: "hs_id ` set (summaries_of resave_db ''batch-1'') = {''hs-0''}"
    by (simp add: summaries_of_def resave_db_def)
  have fs: "map (\<lambda>r. (hs_id r, hs_batch_id r))
              (filter (\<lambda>x. hs_batch_id x \<noteq> ''batch-1'') (harvest_summaries_tbl resave_db))
              = [(''hs-9'', ''batch-2'')]"
    by (simp add: resave_db_def)
  have fd: "map (\<lambda>d. (hdr_harvest_summary_id d, hdr_strain_id d))
              (filter (\<lambda>d. hdr_harvest_summary_id d \<notin> {''hs-0''}) (harvest_details_tbl resave_db))
              = [(''hs-9'', ''s2'')]"
    by (simp add: resave_db_def)
  from save_harvest_tables(1) [of harvest_state demo_batch "save_ok ''hs-1''" "''hs-1''" 0 resave_db]
    sel ok1
  obtain row where "hs_id row = ''hs-1''" "hs_batch_id row = ''batch-1''"
    and "harvest_summaries_tbl ?db1
           = filter (\<lambda>x. hs_batch_id x \<noteq> ''batch-1'') (harvest_summaries_tbl resave_db) @ [row]"
    unfolding bid by blast
  then have a: "map (\<lambda>r. (hs_id r, hs_batch_id r)) (harvest_summaries_tbl ?db1)
                  = [(''hs-9'', ''batch-2''), (''hs-1'', ''batch-1'')]"
    using fs by simp
  have "harvest_details_tbl ?db1
          = filter (\<lambda>d. hdr_harvest_summary_id d \<notin> {''hs-0''}) (harvest_details_tbl resave_db)
            @ harvestDetails ''hs-1'' [demo_harvest]"
    using save_harvest_tables(2) [of harvest_state demo_batch "save_ok ''hs-1''" "''hs-1''" 0 resave_db]
      sel ok1
    unfolding bid old hd by blast
  then have b: "map (\<lambda>d. (hdr_harvest_summary_id d, hdr_strain_id d)) (harvest_details_tbl ?db1)
                  = [(''hs-9'', ''s2''), (''hs-1'', ''s1'')]"
    using fd by (simp add: harvestDetails_def hid)
  have a': "hs_id ` set (harvest_summaries_tbl ?db1) = {''hs-9'', ''hs-1''}"
  proof -
    have "hs_id ` set (harvest_summaries_tbl ?db1)
            = fst ` set (map (\<lambda>r. (hs_id r, hs_batch_id r)) (harvest_summaries_tbl ?db1))"
      by (simp add: image_image)
    then show ?thesis unfolding a by simp
  qed
  have b': "hdr_harvest_summary_id ` set (harvest_details_tbl ?db1) = {''hs-9'', ''hs-1''}"
  proof -
    have "hdr_harvest_summary_id ` set (harvest_details_tbl ?db1)
            = fst ` set (map (\<lambda>d. (hdr_harvest_summary_id d, hdr_strain_id d))
                           (harvest_details_tbl ?db1))"
      by (simp add: image_image)
    then show ?thesis unfolding b by simp
  qed
  have n2: "new_summary_id ?db1 ''hs-2''"
    unfolding new_summary_id_def a' b' by simp
  from harvest_resave_replaces [of harvest_state demo_batch harvest_state
            "save_ok ''hs-1''" "''hs-1''" "save_ok ''hs-2''" "''hs-2''" resave_db 0 0]
          sel ok1 ok2 n1 n2
  have r: "map hs_id (summaries_of ?db2 ''batch-1'') = [''hs-2'']"
    "map hdr_strain_id (details_of ?db2 ''batch-1'') = map hd_strain_id [demo_harvest]"
    "\<exists>row. hs_id row = ''hs-2'' \<and> hs_batch_id row = ''batch-1''
           \<and> harvest_summaries_tbl ?db2
               = filter (\<lambda>x. hs_batch_id x \<noteq> ''batch-1'') (harvest_summaries_tbl resave_db) @ [row]"
    "harvest_details_tbl ?db2
         = filter (\<lambda>d. hdr_harvest_summary_id d \<notin> {''hs-0''}) (harvest_details_tbl resave_db)
           @ harvestDetails ''hs-2'' [demo_harvest]"
    unfolding bid old hd by blast+
  from r(3) obtain row2 where "hs_id row2 = ''hs-2''" "hs_batch_id row2 = ''batch-1''"
    and "harvest_summaries_tbl ?db2
           = filter (\<lambda>x. hs_batch_id x \<noteq> ''batch-1'') (harvest_summaries_tbl resave_db) @ [row2]"
    by blast
  then have c: "map (\<lambda>r. (hs_id r, hs_batch_id r)) (harvest_summaries_tbl ?db2)
                  = [(''hs-9'', ''batch-2''), (''hs-2'', ''batch-1'')]"
    using fs by simp
  have d: "map (\<lambda>d. (hdr_harvest_summary_id d, hdr_strain_id d)) (harvest_details_tbl ?db2)
             = [(''hs-9'', ''s2''), (''hs-2'', ''s1'')]"
    unfolding r(4) using fd by (simp add: harvestDetails_def hid)
  have e: "map hdr_strain_id (details_of ?db2 ''batch-1'') = [''s1'']"
    using r(2) by (simp add: hid)
  from st dt a b c d r(1) e show ?thesis by (intro conjI)
qed

subsection \<open>The harvested status is gated\<close>

lemma find_update_status:
  "find (\<lambda>b. b_id b = bid) (map (\<lambda>b. if b_id b = bid then b\<lparr>b_status := st\<rparr> else b) bs)
     = map_option (\<lambda>b. b\<lparr>b_status := st\<rparr>) (find (\<lambda>b. b_id b = bid) bs)"
  by (induction bs) simp_all

lemma stored_status_update:
  "stored_status (update_status bid st db) bid = map_option (\<lambda>_. st) (stored_status db bid)"
  by (simp add: stored_status_def update_status_def find_update_status option.map_comp comp_def)

lemma stored_status_cong:
  "batches_tbl db' = batches_tbl db \<Longrightarrow> stored_status db' bid = stored_status db bid"
  by (simp add: stored_status_def)

lemma save_inserted:
  assumes "selectedBatchForHarvest s = Some sel"
    and "sr_summary_insert replies = Some newId" and "sr_details_ok replies"
  shows "(\<exists>row\<in>set (harvest_summaries_tbl (fst (handleSaveHarvestData replies today db s))).
            hs_id row = newId \<and> hs_batch_id row = b_id sel)
         \<and> set (harvestDetails newId (harvestData s))
             \<subseteq> set (harvest_details_tbl (fst (handleSaveHarvestData replies today db s)))"
proof -
  obtain sm s1 where c: "calculateHarvestSummary (sr_costs_ok replies) db today s = (sm, s1)"
    by (cases "calculateHarvestSummary (sr_costs_ok replies) db today s")
  have h: "harvestData s1 = harvestData s"
    using summary_harvestData [of "sr_costs_ok replies" db today s] c by simp
  show ?thesis
    using assms c h
    by (cases "sr_status_ok replies")
       (simp_all add: handleSaveHarvestData_def Let_def update_status_def
          split: option.splits list.splits)
qed

lemma update_direct:
  "newStatus \<noteq> Harvested \<Longrightarrow>
   fst (handleUpdateBatchStatus True reload batchId newStatus db s)
     = update_status batchId newStatus db"
  by (simp add: handleUpdateBatchStatus_def Let_def)

lemma update_harvested_gated:
  "find (\<lambda>b. b_id b = batchId) (batches s) = Some batch \<Longrightarrow>
   fst (handleUpdateBatchStatus update_ok reload batchId Harvested db s) = db
   \<and> selectedBatchForHarvest (snd (handleUpdateBatchStatus update_ok reload batchId Harvested db s))
       = Some batch
   \<and> showHarvestModal (snd (handleUpdateBatchStatus update_ok reload batchId Harvested db s))"
  by (simp add: handleUpdateBatchStatus_def Let_def initializeHarvestData_def)

text \<open>
  C2. Choosing the status harvested for a batch of the loaded list changes nothing in the
  store: it selects the batch and opens the harvest dialog. (The status control exists
  only on the rows of the loaded list, so the batch is in the list whenever a status is
  chosen.) A save in which the insert of
  the summary or of the details fails leaves the batch table, and so the stored status of
  the batch, as it was. Whenever a save does change the batch table, the summary row of
  the batch and its detail rows are in the store. A save whose inserts and status update
  succeed leaves the stored status harvested. Choosing any other status writes it to the
  store at once, whatever the status was.
\<close>

theorem harvested_status_gated:
  "(find (\<lambda>b. b_id b = batchId) (batches s) = Some batch \<longrightarrow>
      fst (handleUpdateBatchStatus update_ok reload batchId Harvested db s) = db
      \<and> selectedBatchForHarvest
           (snd (handleUpdateBatchStatus update_ok reload batchId Harvested db s)) = Some batch
      \<and> showHarvestModal (snd (handleUpdateBatchStatus update_ok reload batchId Harvested db s)))
   \<and> (selectedBatchForHarvest s = Some sel
        \<and> (sr_summary_insert replies = None \<or> \<not> sr_details_ok replies) \<longrightarrow>
      batches_tbl (fst (handleSaveHarvestData replies today db s)) = batches_tbl db
      \<and> stored_status (fst (handleSaveHarvestData replies today db s)) (b_id sel)
          = stored_status db (b_id sel))
   \<and> (selectedBatchForHarvest s = Some sel
        \<and> batches_tbl (fst (handleSaveHarvestData replies today db s)) \<noteq> batches_tbl db \<longrightarrow>
      (\<exists>newId. sr_summary_insert replies = Some newId \<and> sr_details_ok replies
         \<and> (\<exists>row\<in>set (harvest_summaries_tbl (fst (handleSaveHarvestData replies today db s))).
               hs_id row = newId \<and> hs_batch_id row = b_id sel)
         \<and> set (harvestDetails newId (harvestData s))
             \<subseteq> set (harvest_details_tbl (fst (handleSaveHarvestData replies today db s)))))
   \<and> (selectedBatchForHarvest s = Some sel \<and> sr_summary_insert replies \<noteq> None
        \<and> sr_details_ok replies \<and> sr_status_ok replies
        \<and> stored_status db (b_id sel) \<noteq> None \<longrightarrow>
      stored_status (fst (handleSaveHarvestData replies today db s)) (b_id sel) = Some Harvested)
   \<and> (newStatus \<noteq> Harvested \<and> stored_status db batchId \<noteq> None \<longrightarrow>
      stored_status (fst (handleUpdateBatchStatus True reload batchId newStatus db s)) batchId
        = Some newStatus)"
proof -
  let ?db' = "fst (handleSaveHarvestData replies today db s)"
  have 1: "find (\<lambda>b. b_id b = batchId) (batches s) = Some batch \<longrightarrow>
      fst (handleUpdateBatchStatus update_ok reload batchId Harvested db s) = db
      \<and> selectedBatchForHarvest
           (snd (handleUpdateBatchStatus update_ok reload batchId Harvested db s)) = Some batch
      \<and> showHarvestModal (snd (handleUpdateBatchStatus update_ok reload batchId Harvested db s))"
    using update_harvested_gated [of batchId s batch update_ok reload db] by blast
  have 2: "selectedBatchForHarvest s = Some sel
        \<and> (sr_summary_insert replies = None \<or> \<not> sr_details_ok replies) \<longrightarrow>
      batches_tbl ?db' = batches_tbl db
      \<and> stored_status ?db' (b_id sel) = stored_status db (b_id sel)"
    using save_batches_tbl [of replies today db s]
    by (auto simp add: stored_status_def)
  have 3: "selectedBatchForHarvest s = Some sel \<and> batches_tbl ?db' \<noteq> batches_tbl db \<longrightarrow>
      (\<exists>newId. sr_summary_insert replies = Some newId \<and> sr_details_ok replies
         \<and> (\<exists>row\<in>set (harvest_summaries_tbl ?db'). hs_id row = newId \<and> hs_batch_id row = b_id sel)
         \<and> set (harvestDetails newId (harvestData s)) \<subseteq> set (harvest_details_tbl ?db'))"
  proof (intro impI)
    assume a: "selectedBatchForHarvest s = Some sel \<and> batches_tbl ?db' \<noteq> batches_tbl db"
    then have "sr_summary_insert replies \<noteq> None \<and> sr_details_ok replies"
      using save_batches_tbl [of replies today db s] by (auto split: if_splits)
    then obtain newId where n: "sr_summary_insert replies = Some newId" "sr_details_ok replies"
      by auto
    with save_inserted [of s sel replies newId today db] a
    show "\<exists>newId. sr_summary_insert replies = Some newId \<and> sr_details_ok replies
         \<and> (\<exists>row\<in>set (harvest_summaries_tbl ?db'). hs_id row = newId \<and> hs_batch_id row = b_id sel)
         \<and> set (harvestDetails newId (harvestData s)) \<subseteq> set (harvest_details_tbl ?db')"
      by blast
  qed
  have 4: "selectedBatchForHarvest s = Some sel \<and> sr_summary_insert replies \<noteq> None
        \<and> sr_details_ok replies \<and> sr_status_ok replies
        \<and> stored_status db (b_id sel) \<noteq> None \<longrightarrow>
      stored_status ?db' (b_id sel) = Some Harvested"
  proof (intro impI)
    assume a: "selectedBatchForHarvest s = Some sel \<and> sr_summary_insert replies \<noteq> None
        \<and> sr_details_ok replies \<and> sr_status_ok replies
        \<and> stored_status db (b_id sel) \<noteq> None"
    then have "batches_tbl ?db' = batches_tbl (update_status (b_id sel) Harvested db)"
      using save_batches_tbl [of replies today db s] by (simp add: update_status_def)
    then have "stored_status ?db' (b_id sel)
                 = stored_status (update_status (b_id sel) Harvested db) (b_id sel)"
      by (rule stored_status_cong)
    then show "stored_status ?db' (b_id sel) = Some Harvested"
      using a by (auto simp add: stored_status_update)
  qed
  have 5: "newStatus \<noteq> Harvested \<and> stored_status db batchId \<noteq> None \<longrightarrow>
      stored_status (fst (handleUpdateBatchStatus True reload batchId newStatus db s)) batchId
        = Some newStatus"
    by (auto simp add: update_direct stored_status_update)
  from 1 2 3 4 5 show ?thesis by blast
qed

text \<open>
  Batch 1, active: choosing harvested leaves the store alone; a save whose detail insert
  fails leaves it active; a successful save makes it harvested; choosing archived makes
  it archived.
\<close>

theorem harvested_status_gated_witness:
  "fst (handleUpdateBatchStatus True LoadJoined ''batch-1'' Harvested harvest_db harvest_state)
     = harvest_db
   \<and> stored_status harvest_db ''batch-1'' = Some Active
   \<and> stored_status
        (fst (handleSaveHarvestData ((save_ok ''hs-1'')\<lparr>sr_details_ok := False\<rparr>) 0
                harvest_db harvest_state)) ''batch-1'' = Some Active
   \<and> stored_status
        (fst (handleSaveHarvestData (save_ok ''hs-1'') 0 harvest_db harvest_state)) ''batch-1''
       = Some Harvested
   \<and> stored_status
        (fst (handleUpdateBatchStatus True LoadJoined ''batch-1'' Archived harvest_db harvest_state))
        ''batch-1'' = Some Archived"
proof -
  have f: "find (\<lambda>b. b_id b = ''batch-1'') (batches harvest_state) = Some demo_batch"
    by (simp add: harvest_state_def initial_state_def demo_batch_def)
  have sel: "selectedBatchForHarvest harvest_state = Some demo_batch"
    by (simp add: harvest_state_def initial_state_def)
  have bid: "b_id demo_batch = ''batch-1''" by (simp add: demo_batch_def)
  have st: "stored_status harvest_db ''batch-1'' = Some Active"
    by (simp add: stored_status_def harvest_db_def empty_db_def)
  have bad: "sr_summary_insert ((save_ok ''hs-1'')\<lparr>sr_details_ok := False\<rparr>) = None
             \<or> \<not> sr_details_ok ((save_ok ''hs-1'')\<lparr>sr_details_ok := False\<rparr>)"
    by simp
  have ok: "sr_summary_insert (save_ok ''hs-1'') \<noteq> None \<and> sr_details_ok (save_ok ''hs-1'')
            \<and> sr_status_ok (save_ok ''hs-1'')"
    by (simp add: save_ok_def)
  have 1: "fst (handleUpdateBatchStatus True LoadJoined ''batch-1'' Harvested harvest_db harvest_state)
             = harvest_db"
    using harvested_status_gated [where batchId = "''batch-1''" and s = harvest_state
            and batch = demo_batch and update_ok = True and reload = LoadJoined
            and db = harvest_db] f
    by blast
  have 2: "stored_status
        (fst (handleSaveHarvestData ((save_ok ''hs-1'')\<lparr>sr_details_ok := False\<rparr>) 0
                harvest_db harvest_state)) (b_id demo_batch) = stored_status harvest_db (b_id demo_batch)"
    using harvested_status_gated [where s = harvest_state and sel = demo_batch
            and replies = "(save_ok ''hs-1'')\<lparr>sr_details_ok := False\<rparr>" and today = 0
            and db = harvest_db] sel bad
    by blast
  have 3: "stored_status
        (fst (handleSaveHarvestData (save_ok ''hs-1'') 0 harvest_db harvest_state)) (b_id demo_batch)
       = Some Harvested"
    using harvested_status_gated [where s = harvest_state and sel = demo_batch
            and replies = "save_ok ''hs-1''" and today = 0 and db = harvest_db] sel ok st bid
    by simp
  have a: "Archived \<noteq> Harvested \<and> stored_status harvest_db ''batch-1'' \<noteq> None"
    using st by simp
  have 4: "stored_status
        (fst (handleUpdateBatchStatus True LoadJoined ''batch-1'' Archived harvest_db harvest_state))
        ''batch-1'' = Some Archived"
    using harvested_status_gated [where batchId = "''batch-1''" and s = harvest_state
            and reload = LoadJoined and db = harvest_db and newStatus = Archived] a
    by blast
  from 1 2 3 4 st show ?thesis unfolding bid by simp
qed

end
